theory Spec2Isabelle
  imports Complex_Main
begin

section \<open>Elevation profile generator (ElevationProfileGenerator.js)\<close>

text \<open>
  A shallow embedding of \<^verbatim>\<open>src/elevation-profiler/ElevationProfileGenerator.js\<close>.

  Conventions of the model.
  \<^item> A finite JavaScript number is a \<open>real\<close>: arithmetic is exact, IEEE rounding is not
    modelled. \<open>numberOfPoints\<close> is an \<open>int\<close>, the loop counter a \<open>nat\<close>. A division by
    zero is 0 in HOL and Infinity or NaN in JavaScript; the only one in the file is the step
    for \<open>numberOfPoints = 1\<close>, where the loop does not run and the step is never used.
  \<^item> A value that JavaScript arithmetic turns into NaN (an \<open>undefined\<close> read from a
    pixel grid or from a short array) is the constructor \<open>NaN\<close> of \<open>number\<close>.
  \<^item> A thrown exception and a rejected promise are values of \<open>error\<close>; a promise that
    never settles is \<open>Pending\<close>.
  \<^item> The module-level variables are the record \<open>moduleState\<close>, passed in and returned.
  \<^item> The imported libraries (turf length and along, tile-cover, sphericalmercator,
    get-pixels) are not part of the file; they are the fields of \<open>collaborators\<close>.
    The order in which the tile requests complete is a field too.
  \<^item> A run ends when its promise settles. Callbacks of requests that are still in flight
    after a rejection are not modelled.
\<close>

subsection \<open>Data\<close>

datatype number = Num real | NaN

datatype error = TypeError | GetPixelsError string

datatype 'a promise = Pending | Rejected error | Resolved 'a

text \<open>The parameter \<open>minMetersBetweenPoints\<close>: left out, \<open>null\<close>, or a number.\<close>

datatype minMeters = Undefined | Null | Meters real

text \<open>A GeoJSON position is (longitude, latitude).\<close>

record lineString =
  coordinates :: "(real \<times> real) list"

text \<open>The pixel grid of a tile, read by \<open>get(x, y, channel)\<close>.\<close>

type_synonym pixels = "real \<Rightarrow> real \<Rightarrow> nat \<Rightarrow> number"

record tileObject =
  tile_coordinates :: "int \<times> int \<times> int"
  tile_smCoordinates :: "real \<times> real"
  tileData :: "pixels option"

text \<open>
  An entry of \<open>tilePromises\<close>: the request for tile (x, y, z) whose result is written to
  \<open>requiredTilesObjects[requiredTilesObjectsIndex]\<close>.
\<close>

record tilePromise =
  request_xyz :: "int \<times> int \<times> int"
  requiredTilesObjectsIndex :: nat
  access_token :: string

text \<open>A point feature; \<open>None\<close> is a property that is not set.\<close>

record pointFeature =
  point_coordinates :: "real \<times> real"
  distanceAlongLine :: real
  smCoordinates :: "(real \<times> real) option"
  elevation :: "number option"

record featureCollection =
  features :: "pointFeature list"

record moduleState =
  requiredTilesObjects :: "tileObject list"
  tilePromises :: "tilePromise list"
  minKmBetweenPoints :: "real option"

record collaborators =
  turf_length :: "lineString \<Rightarrow> real"
  turf_along :: "lineString \<Rightarrow> real \<Rightarrow> real \<times> real"
  tileCover_tiles :: "lineString \<Rightarrow> nat \<Rightarrow> nat \<Rightarrow> (int \<times> int \<times> int) list"
  sphericalMercator_px :: "real \<times> real \<Rightarrow> nat \<Rightarrow> real \<times> real"
  getPixels :: "int \<times> int \<times> int \<Rightarrow> string \<Rightarrow> error + pixels"
  completionOrder :: "nat list"

definition ZOOM_LEVEL :: nat where
  "ZOOM_LEVEL = 15"

definition TILE_SIZE :: real where
  "TILE_SIZE = 256"

subsection \<open>Elevation decoder\<close>

text \<open>
  \<open>_calculateHeightFromPixel\<close>: the three channels are read by index; a missing or
  undefined channel makes the sum NaN.
\<close>

fun calculateHeightFromPixel :: "number list \<Rightarrow> number" where
  "calculateHeightFromPixel (Num red # Num green # Num blue # _) =
     Num (- 10000 + ((red * 256 * 256 + green * 256 + blue) * 0.1))"
| "calculateHeightFromPixel _ = NaN"

subsection \<open>Sample planner\<close>

text \<open>\<open>_getPixelDistanceAtLatitudeInMeters\<close>.\<close>

definition getPixelDistanceAtLatitudeInMeters :: "real \<Rightarrow> real" where
  "getPixelDistanceAtLatitudeInMeters latitude =
     40075016.686 * (cos (latitude * pi / 180) / 2 ^ (ZOOM_LEVEL + 8))"

text \<open>
  The loop of \<open>_getLineStringDistancesToCheck\<close>:
  \<^verbatim>\<open>for (let i = 0; (i < numberOfPoints - 1) && (stepDistance * i < lineStringLength); i++)\<close>.
\<close>

function distancesLoop :: "real \<Rightarrow> real \<Rightarrow> int \<Rightarrow> nat \<Rightarrow> real list \<Rightarrow> real list" where
  "distancesLoop stepDistance lineStringLength numberOfPoints i distances =
     (if int i < numberOfPoints - 1 \<and> stepDistance * real i < lineStringLength
      then distancesLoop stepDistance lineStringLength numberOfPoints (Suc i)
             (distances @ [stepDistance * real i])
      else distances)"
  by pat_completeness auto
termination
  by (relation "measure (\<lambda>(s, l, n, i, ds). nat (n - 1 - int i))") auto

declare distancesLoop.simps [simp del]

text \<open>
  Lines 76 to 79 of \<open>_getLineStringDistancesToCheck\<close>: the step, raised to
  \<open>minKmBetweenPoints\<close> when that is not \<open>null\<close> and the step is smaller.
\<close>

definition stepDistanceOf :: "moduleState \<Rightarrow> real \<Rightarrow> int \<Rightarrow> real" where
  "stepDistanceOf s lineStringLength numberOfPoints =
     (let stepDistance = lineStringLength / real_of_int (numberOfPoints - 1)
      in case minKmBetweenPoints s of
           None \<Rightarrow> stepDistance
         | Some minKm \<Rightarrow> if stepDistance < minKm then minKm else stepDistance)"

text \<open>\<open>_getLineStringDistancesToCheck\<close>: the loop, then the length itself is pushed.\<close>

definition getLineStringDistancesToCheck ::
    "collaborators \<Rightarrow> moduleState \<Rightarrow> lineString \<Rightarrow> int \<Rightarrow> real list" where
  "getLineStringDistancesToCheck env s lineString numberOfPoints =
     (let lineStringLength = turf_length env lineString;
          stepDistance = stepDistanceOf s lineStringLength numberOfPoints;
          distances = distancesLoop stepDistance lineStringLength numberOfPoints 0 []
      in distances @ [lineStringLength])"

text \<open>
  \<open>_getPointsToCheck\<close>: the point along the line at each distance, with the distance in
  metres as a property.
\<close>

definition getPointsToCheck ::
    "collaborators \<Rightarrow> lineString \<Rightarrow> real list \<Rightarrow> pointFeature list" where
  "getPointsToCheck env lineString distancesToCheck =
     map (\<lambda>distance.
            \<lparr> point_coordinates = turf_along env lineString distance,
              distanceAlongLine = distance * 1000,
              smCoordinates = None,
              elevation = None \<rparr>)
         distancesToCheck"

text \<open>\<open>_getLineStringPoints\<close>.\<close>

definition getLineStringPoints ::
    "collaborators \<Rightarrow> moduleState \<Rightarrow> lineString \<Rightarrow> int \<Rightarrow> pointFeature list" where
  "getLineStringPoints env s lineString numberOfPoints =
     getPointsToCheck env lineString (getLineStringDistancesToCheck env s lineString numberOfPoints)"

subsection \<open>Projection and tile list\<close>

text \<open>\<open>_addXYZCoordinatesToPointsGeoJSON\<close>.\<close>

definition addXYZCoordinatesToPointsGeoJSON ::
    "collaborators \<Rightarrow> pointFeature list \<Rightarrow> nat \<Rightarrow> pointFeature list" where
  "addXYZCoordinatesToPointsGeoJSON env pointsArray zoomLevel =
     map (\<lambda>pointGeoJSON.
            pointGeoJSON \<lparr> smCoordinates :=
              Some (sphericalMercator_px env (point_coordinates pointGeoJSON) zoomLevel) \<rparr>)
         pointsArray"

text \<open>
  \<open>_getPromisifiedTileRequest\<close>: what the request settles to. The callback of get-pixels
  rejects with a truthy error and resolves with the pixels otherwise.
\<close>

definition getPromisifiedTileRequest ::
    "collaborators \<Rightarrow> int \<Rightarrow> int \<Rightarrow> int \<Rightarrow> string \<Rightarrow> error + pixels" where
  "getPromisifiedTileRequest env x y z token = getPixels env (x, y, z) token"

text \<open>\<open>_getTerrainTilePixelArray\<close> pushes the promise of one request.\<close>

definition getTerrainTilePixelArray ::
    "int \<Rightarrow> int \<Rightarrow> int \<Rightarrow> nat \<Rightarrow> string \<Rightarrow> moduleState \<Rightarrow> moduleState" where
  "getTerrainTilePixelArray x y z index token s =
     s \<lparr> tilePromises := tilePromises s @
           [\<lparr> request_xyz = (x, y, z), requiredTilesObjectsIndex = index, access_token = token \<rparr>] \<rparr>"

text \<open>The body of the \<open>forEach\<close> of \<open>_getTileArrayFromLineString\<close>, with its index.\<close>

fun requiredTilesLoop ::
    "(int \<times> int \<times> int) list \<Rightarrow> nat \<Rightarrow> string \<Rightarrow> moduleState \<Rightarrow> moduleState" where
  "requiredTilesLoop [] index token s = s"
| "requiredTilesLoop ((x, y, z) # rest) index token s =
     requiredTilesLoop rest (Suc index) token
       (getTerrainTilePixelArray x y z index token
          (s \<lparr> requiredTilesObjects := requiredTilesObjects s @
                [\<lparr> tile_coordinates = (x, y, z),
                   tile_smCoordinates = (real_of_int x * TILE_SIZE, real_of_int y * TILE_SIZE),
                   tileData = None \<rparr>] \<rparr>))"

text \<open>\<open>_getTileArrayFromLineString\<close>: the loop over the tiles the resolver returns.\<close>

definition getTileArrayFromLineString ::
    "collaborators \<Rightarrow> lineString \<Rightarrow> nat \<Rightarrow> nat \<Rightarrow> string \<Rightarrow> moduleState \<Rightarrow> moduleState" where
  "getTileArrayFromLineString env lineString minZoom maxZoom token s =
     requiredTilesLoop (tileCover_tiles env lineString minZoom maxZoom) 0 token s"

subsection \<open>Coverage index\<close>

text \<open>\<open>_pointIsWithinTile\<close>.\<close>

definition pointIsWithinTile :: "real \<times> real \<Rightarrow> real \<times> real \<Rightarrow> bool" where
  "pointIsWithinTile pointSMCoordinates tileSMCoordinates =
     (fst pointSMCoordinates \<ge> fst tileSMCoordinates
      \<and> fst pointSMCoordinates \<le> fst tileSMCoordinates + TILE_SIZE
      \<and> snd pointSMCoordinates \<ge> snd tileSMCoordinates
      \<and> snd pointSMCoordinates \<le> snd tileSMCoordinates + TILE_SIZE)"

text \<open>
  \<open>requiredTilesObjects.filter(...)[0]\<close> in \<open>_addHeightToPointsGeoJSON\<close>; \<open>None\<close> is the
  \<open>undefined\<close> read from an empty filter result.
\<close>

definition matchingTile :: "tileObject list \<Rightarrow> real \<times> real \<Rightarrow> tileObject option" where
  "matchingTile tiles pointSMCoordinates =
     (case filter (\<lambda>tile. pointIsWithinTile pointSMCoordinates (tile_smCoordinates tile)) tiles of
        [] \<Rightarrow> None
      | tile # _ \<Rightarrow> Some tile)"

text \<open>
  \<open>xRelativeToTile\<close> and \<open>yRelativeToTile\<close>: the two arguments handed to
  \<open>tileData.get\<close>.
\<close>

definition relativeToTile :: "real \<times> real \<Rightarrow> tileObject \<Rightarrow> real \<times> real" where
  "relativeToTile pointSMCoordinates tile =
     (fst pointSMCoordinates - fst (tile_smCoordinates tile),
      snd pointSMCoordinates - snd (tile_smCoordinates tile))"

text \<open>
  The body of the \<open>forEach\<close> of \<open>_addHeightToPointsGeoJSON\<close>. Reading a property of
  \<open>undefined\<close> or \<open>null\<close> (no pixel coordinates, no matching tile, no tile data) throws a
  TypeError.
\<close>

definition addHeightToPoint :: "tileObject list \<Rightarrow> pointFeature \<Rightarrow> error + pointFeature" where
  "addHeightToPoint tiles point =
     (case smCoordinates point of
        None \<Rightarrow> Inl TypeError
      | Some pointSMCoordinates \<Rightarrow>
          (case matchingTile tiles pointSMCoordinates of
             None \<Rightarrow> Inl TypeError
           | Some tile \<Rightarrow>
               (let xRelativeToTile = fst (relativeToTile pointSMCoordinates tile);
                    yRelativeToTile = snd (relativeToTile pointSMCoordinates tile)
                in case tileData tile of
                     None \<Rightarrow> Inl TypeError
                   | Some grid \<Rightarrow>
                       Inr (point \<lparr> elevation := Some (calculateHeightFromPixel
                              [grid xRelativeToTile yRelativeToTile 0,
                               grid xRelativeToTile yRelativeToTile 1,
                               grid xRelativeToTile yRelativeToTile 2]) \<rparr>))))"

text \<open>\<open>_addHeightToPointsGeoJSON\<close>: the \<open>forEach\<close> stops at the first exception.\<close>

fun addHeightToPointsGeoJSON :: "tileObject list \<Rightarrow> pointFeature list \<Rightarrow> error + pointFeature list" where
  "addHeightToPointsGeoJSON tiles [] = Inr []"
| "addHeightToPointsGeoJSON tiles (point # rest) =
     (case addHeightToPoint tiles point of
        Inl e \<Rightarrow> Inl e
      | Inr point' \<Rightarrow>
          (case addHeightToPointsGeoJSON tiles rest of
             Inl e \<Rightarrow> Inl e
           | Inr rest' \<Rightarrow> Inr (point' # rest')))"

text \<open>
  \<open>_getFormattedPointsResult\<close>: each point is copied and the copy loses
  \<open>smCoordinates\<close>. (The JSON copy writes a NaN elevation as \<open>null\<close>; the model keeps
  \<open>NaN\<close> for it.)
\<close>

definition getFormattedPointsResult :: "pointFeature list \<Rightarrow> featureCollection" where
  "getFormattedPointsResult points =
     \<lparr> features = map (\<lambda>point. point \<lparr> smCoordinates := None \<rparr>) points \<rparr>"

subsection \<open>Waiting for the tiles\<close>

text \<open>
  One tile promise settling: the request's outcome, then the \<open>then\<close> callback
  \<open>requiredTilesObjects[index].tileData = pixels\<close>, which throws a TypeError when the list
  has no such entry.
\<close>

definition tilePromiseSettles :: "collaborators \<Rightarrow> tilePromise \<Rightarrow> moduleState \<Rightarrow> error + moduleState" where
  "tilePromiseSettles env p s =
     (case request_xyz p of (x, y, z) \<Rightarrow>
        (case getPromisifiedTileRequest env x y z (access_token p) of
           Inl e \<Rightarrow> Inl e
         | Inr grid \<Rightarrow>
             (let index = requiredTilesObjectsIndex p
              in if index < length (requiredTilesObjects s)
                 then Inr (s \<lparr> requiredTilesObjects :=
                            (requiredTilesObjects s)
                              [index := (requiredTilesObjects s ! index) \<lparr> tileData := Some grid \<rparr>] \<rparr>)
                 else Inl TypeError)))"

text \<open>
  The tile promises settle in the order \<open>completionOrder\<close> (positions in
  \<open>tilePromises\<close>). The first rejection is the one \<open>Promise.all\<close> reports.
\<close>

fun settleInOrder :: "collaborators \<Rightarrow> nat list \<Rightarrow> moduleState \<Rightarrow> error option \<times> moduleState" where
  "settleInOrder env [] s = (None, s)"
| "settleInOrder env (k # later) s =
     (if k < length (tilePromises s)
      then (case tilePromiseSettles env (tilePromises s ! k) s of
              Inl e \<Rightarrow> (Some e, s)
            | Inr s' \<Rightarrow> settleInOrder env later s')
      else settleInOrder env later s)"

text \<open>
  \<open>Promise.all(tilePromises)\<close>: rejected at the first rejection, resolved once every
  promise has resolved, pending while one of them never settles.
\<close>

definition promiseAll :: "collaborators \<Rightarrow> moduleState \<Rightarrow> unit promise \<times> moduleState" where
  "promiseAll env s =
     (case settleInOrder env (completionOrder env) s of
        (Some e, s') \<Rightarrow> (Rejected e, s')
      | (None, s') \<Rightarrow>
          (if list_all (\<lambda>k. k \<in> set (completionOrder env)) [0 ..< length (tilePromises s)]
           then (Resolved (), s')
           else (Pending, s')))"

subsection \<open>The entry point\<close>

text \<open>
  Lines 44 to 50 of \<open>getLineStringElevationPoints\<close>: the minimum spacing.
  \<open>coordinates[0][1]\<close> of an empty coordinate list throws a TypeError.
\<close>

definition setMinKmBetweenPoints :: "lineString \<Rightarrow> minMeters \<Rightarrow> moduleState \<Rightarrow> error + moduleState" where
  "setMinKmBetweenPoints lineString minMetersBetweenPoints s =
     (case minMetersBetweenPoints of
        Undefined \<Rightarrow>
          (case coordinates lineString of
             [] \<Rightarrow> Inl TypeError
           | first # _ \<Rightarrow>
               Inr (s \<lparr> minKmBetweenPoints :=
                      Some (real_of_int \<lceil>getPixelDistanceAtLatitudeInMeters (snd first) * 10\<rceil> / 10000) \<rparr>))
      | Null \<Rightarrow> Inr (s \<lparr> minKmBetweenPoints := None \<rparr>)
      | Meters m \<Rightarrow> Inr (s \<lparr> minKmBetweenPoints := Some (m / 1000) \<rparr>))"

text \<open>
  \<open>getLineStringElevationPoints\<close>. An exception of the synchronous part rejects the
  promise; otherwise the promise settles as \<open>Promise.all\<close> and the \<open>then\<close> callback
  do, an exception in the callback rejecting it.
\<close>

definition getLineStringElevationPoints ::
    "collaborators \<Rightarrow> lineString \<Rightarrow> int \<Rightarrow> string \<Rightarrow> minMeters \<Rightarrow> moduleState
       \<Rightarrow> featureCollection promise \<times> moduleState" where
  "getLineStringElevationPoints env lineString numberOfPoints mapboxAccessToken minMetersBetweenPoints s0 =
     (let s1 = s0 \<lparr> requiredTilesObjects := [], tilePromises := [] \<rparr>
      in case setMinKmBetweenPoints lineString minMetersBetweenPoints s1 of
           Inl e \<Rightarrow> (Rejected e, s1)
         | Inr s2 \<Rightarrow>
             (let pointsToCheck = getLineStringPoints env s2 lineString numberOfPoints;
                  s3 = getTileArrayFromLineString env lineString ZOOM_LEVEL ZOOM_LEVEL mapboxAccessToken s2;
                  pointsToCheck' = addXYZCoordinatesToPointsGeoJSON env pointsToCheck ZOOM_LEVEL
              in case promiseAll env s3 of
                   (Pending, s4) \<Rightarrow> (Pending, s4)
                 | (Rejected e, s4) \<Rightarrow> (Rejected e, s4)
                 | (Resolved u, s4) \<Rightarrow>
                     (case addHeightToPointsGeoJSON (requiredTilesObjects s4) pointsToCheck' of
                        Inl e \<Rightarrow> (Rejected e, s4)
                      | Inr points \<Rightarrow> (Resolved (getFormattedPointsResult points), s4))))"

subsection \<open>The sample planner as the specification words it\<close>

text \<open>
  In metres: the step is the path length divided by \<open>numberOfPoints - 1\<close>, replaced by the
  minimum spacing when one is in effect and the step is smaller.
\<close>

definition spec_step :: "real \<Rightarrow> int \<Rightarrow> real option \<Rightarrow> real" where
  "spec_step pathLength numberOfPoints minSpacing =
     (let step = pathLength / real_of_int (numberOfPoints - 1)
      in case minSpacing of
           None \<Rightarrow> step
         | Some minimum \<Rightarrow> if step < minimum then minimum else step)"

text \<open>
  The distances 0, step, 2 * step, ... while the distance is below the path length and
  fewer than \<open>numberOfPoints - 1\<close> have been emitted; then the path length.
\<close>

definition plan_spec :: "real \<Rightarrow> int \<Rightarrow> real option \<Rightarrow> real list" where
  "plan_spec pathLength numberOfPoints minSpacing =
     takeWhile (\<lambda>d. d < pathLength)
       (map (\<lambda>k. real k * spec_step pathLength numberOfPoints minSpacing)
            [0 ..< nat (numberOfPoints - 1)])
     @ [pathLength]"

subsection \<open>The automatic minimum spacing as the specification words it\<close>

text \<open>
  The ground size of one pixel at a latitude:
  \<open>40075016.686 * cos(latitude in radians) / 2 ^ (zoomLevel + 8)\<close>.
\<close>

definition pixelGroundSizeAtLatitude :: "real \<Rightarrow> real" where
  "pixelGroundSizeAtLatitude latitude = 40075016.686 * cos (latitude * pi / 180) / 2 ^ (15 + 8)"

text \<open>A value rounded up to one decimal place.\<close>

definition ceilingRoundedToOneDecimal :: "real \<Rightarrow> real" where
  "ceilingRoundedToOneDecimal v = real_of_int \<lceil>v * 10\<rceil> / 10"

subsection \<open>An invariant of the tile lists\<close>

text \<open>The indices the promises write to are entries of the tile list.\<close>

definition promisesInRange :: "moduleState \<Rightarrow> bool" where
  "promisesInRange s =
     list_all (\<lambda>p. requiredTilesObjectsIndex p < length (requiredTilesObjects s)) (tilePromises s)"


subsection \<open>Example runs\<close>

text \<open>
  The module-level variables as the file initialises them (lines 9 to 11).
\<close>

definition initialModuleState :: moduleState where
  "initialModuleState =
     \<lparr> requiredTilesObjects = [], tilePromises = [], minKmBetweenPoints = None \<rparr>"

text \<open>
  A path of one kilometre eastwards along the equator from (0, 0), covered by the single
  tile (16384, 16384) of zoom level 15, whose origin is the pixel (4194304, 4194304); the
  tile's pixels all carry (10, 0, 0), and its request succeeds.
\<close>

definition exampleLine :: lineString where
  "exampleLine = \<lparr> coordinates = [(0, 0), (0.008993, 0)] \<rparr>"

definition uniformGrid :: pixels where
  "uniformGrid = (\<lambda>x y channel. if channel = 0 then Num 10 else Num 0)"

definition exampleCollaborators :: collaborators where
  "exampleCollaborators =
     \<lparr> turf_length = (\<lambda>line. 1),
       turf_along = (\<lambda>line distance. (distance * 0.008993, 0)),
       tileCover_tiles = (\<lambda>line minZoom maxZoom. [(16384, 16384, 15)]),
       sphericalMercator_px =
         (\<lambda>lonLat zoom. (4194304 + real_of_int (round (fst lonLat * 23301.69)), 4194304)),
       getPixels = (\<lambda>xyz token. Inr uniformGrid),
       completionOrder = [0] \<rparr>"

text \<open>
  Two tiles side by side; the pixel column 4194560 is the right edge of the first and the
  left edge of the second.
\<close>

definition adjacentCollaborators :: collaborators where
  "adjacentCollaborators =
     exampleCollaborators
       \<lparr> tileCover_tiles := (\<lambda>line minZoom maxZoom. [(16384, 16384, 15), (16385, 16384, 15)]),
         completionOrder := [1, 0] \<rparr>"

text \<open>The tile of the example, once fetched.\<close>

definition exampleTile :: tileObject where
  "exampleTile =
     \<lparr> tile_coordinates = (16384, 16384, 15),
       tile_smCoordinates = (4194304, 4194304),
       tileData = Some uniformGrid \<rparr>"

text \<open>The two adjacent tiles again; the request of the second one fails.\<close>

definition failingCollaborators :: collaborators where
  "failingCollaborators =
     adjacentCollaborators
       \<lparr> getPixels := (\<lambda>xyz token. if xyz = (16385, 16384, 15)
                                   then Inl (GetPixelsError ''tile not found'')
                                   else Inr uniformGrid) \<rparr>"

text \<open>A resolver that returns a tile six columns to the east of the path.\<close>

definition uncoveredCollaborators :: collaborators where
  "uncoveredCollaborators =
     exampleCollaborators \<lparr> tileCover_tiles := (\<lambda>line minZoom maxZoom. [(16390, 16384, 15)]) \<rparr>"

text \<open>
  A zero-length path: both coordinates are (0, 0). Its length is 0, every point along it is
  (0, 0), and the resolver returns no tile for it (tile-cover skips a segment of length 0).
\<close>

definition degenerateLine :: lineString where
  "degenerateLine = \<lparr> coordinates = [(0, 0), (0, 0)] \<rparr>"

definition degenerateCollaborators :: collaborators where
  "degenerateCollaborators =
     exampleCollaborators
       \<lparr> turf_length := (\<lambda>line. 0),
         turf_along := (\<lambda>line distance. (0, 0)),
         tileCover_tiles := (\<lambda>line minZoom maxZoom. []),
         completionOrder := [] \<rparr>"

text \<open>A module state as an earlier run may have left it.\<close>

definition usedModuleState :: moduleState where
  "usedModuleState =
     \<lparr> requiredTilesObjects = [exampleTile, exampleTile],
       tilePromises = [\<lparr> request_xyz = (1, 2, 15), requiredTilesObjectsIndex = 7, access_token = ''old'' \<rparr>],
       minKmBetweenPoints = Some 7 \<rparr>"


section \<open>Properties\<close>

subsection \<open>The elevation decoder\<close>

text \<open>
  C3. For integer channel values the decoder returns
  \<open>-10000 + (red * 65536 + green * 256 + blue) * 0.1\<close> and never NaN; so
  decode(0,0,0) = -10000, decode(255,255,255) = 1667721.5, and the decoded value is
  monotonically non-decreasing in the 24-bit integer formed by (red, green, blue).
\<close>

theorem decoder_formula_and_bounds:
  "(\<forall>red green blue :: int.
      calculateHeightFromPixel [Num (real_of_int red), Num (real_of_int green), Num (real_of_int blue)]
        = Num (- 10000 + real_of_int (red * 65536 + green * 256 + blue) * 0.1))
   \<and> calculateHeightFromPixel [Num 0, Num 0, Num 0] = Num (- 10000)
   \<and> calculateHeightFromPixel [Num 255, Num 255, Num 255] = Num 1667721.5
   \<and> (\<forall>red green blue red' green' blue' :: int.
        red * 65536 + green * 256 + blue \<le> red' * 65536 + green' * 256 + blue' \<longrightarrow>
        (\<exists>e e'. calculateHeightFromPixel [Num (real_of_int red), Num (real_of_int green), Num (real_of_int blue)] = Num e
              \<and> calculateHeightFromPixel [Num (real_of_int red'), Num (real_of_int green'), Num (real_of_int blue')] = Num e'
              \<and> e \<le> e'))"
proof (intro conjI allI impI)
  fix red green blue :: int
  show "calculateHeightFromPixel [Num (real_of_int red), Num (real_of_int green), Num (real_of_int blue)]
           = Num (- 10000 + real_of_int (red * 65536 + green * 256 + blue) * 0.1)"
    by simp
next
  show "calculateHeightFromPixel [Num 0, Num 0, Num 0] = Num (- 10000)"
    by simp
next
  show "calculateHeightFromPixel [Num 255, Num 255, Num 255] = Num 1667721.5"
    by simp
next
  fix red green blue red' green' blue' :: int
  assume "red * 65536 + green * 256 + blue \<le> red' * 65536 + green' * 256 + blue'"
  then have "real_of_int (red * 65536 + green * 256 + blue)
               \<le> real_of_int (red' * 65536 + green' * 256 + blue')"
    by (rule of_int_le_iff [THEN iffD2])
  then show "\<exists>e e'. calculateHeightFromPixel [Num (real_of_int red), Num (real_of_int green), Num (real_of_int blue)] = Num e
               \<and> calculateHeightFromPixel [Num (real_of_int red'), Num (real_of_int green'), Num (real_of_int blue')] = Num e'
               \<and> e \<le> e'"
    by simp
qed

text \<open>Two neighbouring codes, (0, 0, 255) and (0, 1, 0): -9974.5 and -9974.4.\<close>

theorem decoder_formula_and_bounds_witness:
  "calculateHeightFromPixel [Num 0, Num 0, Num 255] = Num (- 9974.5)
   \<and> calculateHeightFromPixel [Num 0, Num 1, Num 0] = Num (- 9974.4)
   \<and> (\<exists>e e'. calculateHeightFromPixel [Num 0, Num 0, Num 255] = Num e
            \<and> calculateHeightFromPixel [Num 0, Num 1, Num 0] = Num e' \<and> e \<le> e')"
proof -
  have "(0::int) * 65536 + 0 * 256 + 255 \<le> 0 * 65536 + 1 * 256 + 0"
    by simp
  with decoder_formula_and_bounds
  have "\<exists>e e'. calculateHeightFromPixel [Num (real_of_int 0), Num (real_of_int 0), Num (real_of_int 255)] = Num e
            \<and> calculateHeightFromPixel [Num (real_of_int 0), Num (real_of_int 1), Num (real_of_int 0)] = Num e' \<and> e \<le> e'"
    by blast
  then show ?thesis
    by simp
qed

subsection \<open>The sample planner\<close>

lemma distancesLoop_takeWhile:
  "distancesLoop st L n i acc =
     acc @ takeWhile (\<lambda>d. d < L) (map (\<lambda>k. st * real k) [i ..< nat (n - 1)])"
proof (induction st L n i acc rule: distancesLoop.induct)
  case (1 st L n i acc)
  show ?case
  proof (cases "int i < n - 1 \<and> st * real i < L")
    case True
    then have lt: "i < nat (n - 1)" by linarith
    have "distancesLoop st L n i acc = distancesLoop st L n (Suc i) (acc @ [st * real i])"
      by (subst distancesLoop.simps) (simp only: True simp_thms if_True)
    also have "\<dots> = (acc @ [st * real i])
                 @ takeWhile (\<lambda>d. d < L) (map (\<lambda>k. st * real k) [Suc i ..< nat (n - 1)])"
      using "1.IH" True by simp
    also have "\<dots> = acc @ takeWhile (\<lambda>d. d < L) (map (\<lambda>k. st * real k) [i ..< nat (n - 1)])"
      using True lt by (simp add: upt_conv_Cons)
    finally show ?thesis .
  next
    case False
    have stop: "distancesLoop st L n i acc = acc"
      by (subst distancesLoop.simps) (simp only: False if_False)
    show ?thesis
    proof (cases "i < nat (n - 1)")
      case True
      then have "\<not> st * real i < L" using False by linarith
      then show ?thesis using True stop by (simp add: upt_conv_Cons)
    next
      case False
      then show ?thesis using stop by simp
    qed
  qed
qed

lemma distances_shape:
  "getLineStringDistancesToCheck env s ls n =
     takeWhile (\<lambda>d. d < turf_length env ls)
       (map (\<lambda>k. stepDistanceOf s (turf_length env ls) n * real k) [0 ..< nat (n - 1)])
     @ [turf_length env ls]"
  by (simp add: getLineStringDistancesToCheck_def Let_def distancesLoop_takeWhile)

lemma distances_meters:
  "map distanceAlongLine (getLineStringPoints env s ls n)
     = map (\<lambda>d. d * 1000) (getLineStringDistancesToCheck env s ls n)"
  by (simp add: getLineStringPoints_def getPointsToCheck_def comp_def)

lemma stepDistanceOf_nonneg:
  assumes "0 \<le> L" "1 \<le> n"
  shows "0 \<le> stepDistanceOf s L n"
proof -
  have "0 \<le> L / real_of_int (n - 1)" using assms by simp
  then show ?thesis
    by (auto simp: stepDistanceOf_def Let_def split: option.splits)
qed

lemma stepDistanceOf_meters:
  "stepDistanceOf s L n * 1000
     = spec_step (L * 1000) n (map_option (\<lambda>km. km * 1000) (minKmBetweenPoints s))"
proof (cases "minKmBetweenPoints s")
  case None
  then show ?thesis by (simp add: stepDistanceOf_def spec_step_def)
next
  case (Some km)
  define step where "step = L / real_of_int (n - 1)"
  have scale: "L * 1000 / real_of_int (n - 1) = step * 1000"
    by (simp add: step_def)
  have cmp: "(step * 1000 < km * 1000) = (step < km)"
    by simp
  show ?thesis
    unfolding stepDistanceOf_def spec_step_def Let_def Some scale step_def [symmetric]
    by (simp only: option.map option.case cmp if_distrib [of "\<lambda>x. x * 1000"])
qed

lemma takeWhile_scaled:
  "map (\<lambda>d. d * 1000) (takeWhile (\<lambda>d. d < L) (map (\<lambda>k. st * real k) ks))
     = takeWhile (\<lambda>d. d < L * 1000) (map (\<lambda>k. real k * (st * 1000)) ks)"
  by (induction ks) (auto simp: mult.commute)

lemma planner_refines:
  "map distanceAlongLine (getLineStringPoints env s ls n)
     = plan_spec (turf_length env ls * 1000) n
         (map_option (\<lambda>km. km * 1000) (minKmBetweenPoints s))"
  unfolding distances_meters
  by (simp add: distances_shape takeWhile_scaled plan_spec_def stepDistanceOf_meters)

lemma sorted_multiples:
  assumes "0 \<le> st"
  shows "sorted (map (\<lambda>k. st * real k) [i ..< m])"
proof -
  have "sorted_wrt (\<lambda>a b. st * real a \<le> st * real b) [i ..< m]"
    by (rule sorted_wrt_mono_rel [OF _ sorted_upt [of i m]]) (simp add: assms mult_left_mono)
  then show ?thesis by (simp add: sorted_wrt_map)
qed

lemma distances_props:
  fixes s :: moduleState
  assumes "0 \<le> turf_length env ls" "2 \<le> n"
  defines "ds \<equiv> getLineStringDistancesToCheck env s ls n"
  shows "\<forall>d \<in> set ds. 0 \<le> d \<and> d \<le> turf_length env ls"
    and "sorted ds"
    and "ds \<noteq> []"
    and "last ds = turf_length env ls"
proof -
  let ?L = "turf_length env ls"
  let ?st = "stepDistanceOf s ?L n"
  let ?tw = "takeWhile (\<lambda>d. d < ?L) (map (\<lambda>k. ?st * real k) [0 ..< nat (n - 1)])"
  have st: "0 \<le> ?st" using assms by (intro stepDistanceOf_nonneg) auto
  have ds: "ds = ?tw @ [?L]" unfolding ds_def by (rule distances_shape)
  have below: "d < ?L" if "d \<in> set ?tw" for d
    using set_takeWhileD [OF that] by simp
  have nonneg: "0 \<le> d" if "d \<in> set ?tw" for d
  proof -
    from set_takeWhileD [OF that] obtain k where "d = ?st * real k" by auto
    then show ?thesis using st by simp
  qed
  show "\<forall>d \<in> set ds. 0 \<le> d \<and> d \<le> ?L"
    using below nonneg assms(1) unfolding ds by fastforce
  have "sorted ?tw" by (rule sorted_takeWhile [OF sorted_multiples [OF st]])
  then show "sorted ds" unfolding ds using below by (fastforce simp: sorted_append)
  show "ds \<noteq> []" unfolding ds by simp
  show "last ds = ?L" unfolding ds by simp
qed

lemma setMinKmBetweenPoints_Null:
  "setMinKmBetweenPoints ls Null s = Inr s' \<Longrightarrow> minKmBetweenPoints s' = None"
  by (auto simp: setMinKmBetweenPoints_def)

lemma setMinKmBetweenPoints_Meters:
  "setMinKmBetweenPoints ls (Meters m) s = Inr s' \<Longrightarrow> minKmBetweenPoints s' = Some (m / 1000)"
  by (auto simp: setMinKmBetweenPoints_def)

text \<open>
  C1. For a path of positive length L and \<open>numberOfPoints \<ge> 2\<close> the distances of the
  sample points, in metres, are the sequence of the specification: step = L / (n - 1),
  replaced by the minimum spacing in effect when the step is smaller; 0, step,
  2 * step, ... while below L and fewer than n - 1 emitted; then L. With L = 1000 m,
  n = 5 and no minimum the distances are [0, 250, 500, 750, 1000]; with L = 100 m,
  n = 50 and an explicit minimum of 60 m they are [0, 60, 100].
\<close>

theorem sample_planner_refines_spec:
  "(\<forall>env s ls n. 0 < turf_length env ls \<and> 2 \<le> n \<longrightarrow>
      map distanceAlongLine (getLineStringPoints env s ls n)
        = plan_spec (turf_length env ls * 1000) n
            (map_option (\<lambda>km. km * 1000) (minKmBetweenPoints s)))
   \<and> (\<forall>env s s' ls. turf_length env ls * 1000 = 1000
          \<and> setMinKmBetweenPoints ls Null s = Inr s' \<longrightarrow>
        map distanceAlongLine (getLineStringPoints env s' ls 5) = [0, 250, 500, 750, 1000])
   \<and> (\<forall>env s s' ls. turf_length env ls * 1000 = 100
          \<and> setMinKmBetweenPoints ls (Meters 60) s = Inr s' \<longrightarrow>
        map distanceAlongLine (getLineStringPoints env s' ls 50) = [0, 60, 100])"
proof (intro conjI allI impI)
  fix env :: collaborators and s :: moduleState and ls :: lineString and n :: int
  show "map distanceAlongLine (getLineStringPoints env s ls n)
        = plan_spec (turf_length env ls * 1000) n
            (map_option (\<lambda>km. km * 1000) (minKmBetweenPoints s))"
    by (rule planner_refines)
next
  fix env :: collaborators and s s' :: moduleState and ls :: lineString
  assume a: "turf_length env ls * 1000 = 1000 \<and> setMinKmBetweenPoints ls Null s = Inr s'"
  then have "minKmBetweenPoints s' = None"
    by (auto dest: setMinKmBetweenPoints_Null)
  with a show "map distanceAlongLine (getLineStringPoints env s' ls 5) = [0, 250, 500, 750, 1000]"
    unfolding planner_refines
    by (simp add: plan_spec_def spec_step_def upt_conv_Cons)
next
  fix env :: collaborators and s s' :: moduleState and ls :: lineString
  assume a: "turf_length env ls * 1000 = 100 \<and> setMinKmBetweenPoints ls (Meters 60) s = Inr s'"
  then have "minKmBetweenPoints s' = Some (60 / 1000)"
    by (auto dest: setMinKmBetweenPoints_Meters)
  with a show "map distanceAlongLine (getLineStringPoints env s' ls 50) = [0, 60, 100]"
    unfolding planner_refines
    by (simp add: plan_spec_def spec_step_def upt_conv_Cons)
qed

text \<open>The example path of one kilometre, five points, no minimum spacing.\<close>

theorem sample_planner_refines_spec_witness:
  "0 < turf_length exampleCollaborators exampleLine \<and> (2::int) \<le> 5
   \<and> setMinKmBetweenPoints exampleLine Null initialModuleState = Inr initialModuleState
   \<and> map distanceAlongLine (getLineStringPoints exampleCollaborators initialModuleState exampleLine 5)
       = plan_spec 1000 5 None
   \<and> map distanceAlongLine (getLineStringPoints exampleCollaborators initialModuleState exampleLine 5)
       = [0, 250, 500, 750, 1000]"
proof -
  have len: "turf_length exampleCollaborators exampleLine = 1"
    by (simp add: exampleCollaborators_def)
  have policy: "setMinKmBetweenPoints exampleLine Null initialModuleState = Inr initialModuleState"
    by (simp add: setMinKmBetweenPoints_def initialModuleState_def)
  have none: "minKmBetweenPoints initialModuleState = None"
    by (simp add: initialModuleState_def)
  note general = sample_planner_refines_spec [THEN conjunct1, rule_format,
      of exampleCollaborators exampleLine 5 initialModuleState]
  have spec: "map distanceAlongLine (getLineStringPoints exampleCollaborators initialModuleState exampleLine 5)
           = plan_spec 1000 5 None"
    using general by (simp only: len none option.map) simp
  have "plan_spec 1000 5 None = [0, 250, 500, 750, 1000]"
    by (simp add: plan_spec_def spec_step_def upt_conv_Cons)
  with spec len policy show ?thesis
    by (simp only: simp_thms) simp
qed

lemma meters_bounded:
  assumes bounds: "\<forall>d \<in> set (getLineStringDistancesToCheck env s ls n). 0 \<le> d \<and> d \<le> turf_length env ls"
  shows "\<forall>m \<in> set (map distanceAlongLine (getLineStringPoints env s ls n)).
           0 \<le> m \<and> m \<le> turf_length env ls * 1000"
  unfolding distances_meters using bounds by auto

lemma meters_sorted:
  assumes srt: "sorted (getLineStringDistancesToCheck env s ls n)"
  shows "sorted (map distanceAlongLine (getLineStringPoints env s ls n))"
proof -
  have "sorted_wrt (\<lambda>a b. a * 1000 \<le> b * 1000) (getLineStringDistancesToCheck env s ls n)"
    by (rule sorted_wrt_mono_rel [OF _ srt]) simp
  then show ?thesis
    unfolding distances_meters by (simp add: sorted_wrt_map)
qed

lemma meters_last:
  assumes ne: "getLineStringDistancesToCheck env s ls n \<noteq> []" and lst: "last (getLineStringDistancesToCheck env s ls n) = turf_length env ls"
  shows "last (map distanceAlongLine (getLineStringPoints env s ls n)) = turf_length env ls * 1000"
    unfolding distances_meters using ne lst by (simp add: last_map)

text \<open>
  C2. For every path (its length is not negative), every \<open>numberOfPoints \<ge> 2\<close> and every
  minimum spacing left in the module state, the sample distances are non-negative,
  non-decreasing and at most the path length, and the last one is the path length; so are
  the distances in metres carried by the sample points.
\<close>

theorem sample_distances_monotone_bounded:
  "0 \<le> turf_length env ls \<and> 2 \<le> n \<longrightarrow>
     (\<forall>d \<in> set (getLineStringDistancesToCheck env s ls n). 0 \<le> d \<and> d \<le> turf_length env ls)
     \<and> sorted (getLineStringDistancesToCheck env s ls n)
     \<and> getLineStringDistancesToCheck env s ls n \<noteq> []
     \<and> last (getLineStringDistancesToCheck env s ls n) = turf_length env ls
     \<and> (\<forall>m \<in> set (map distanceAlongLine (getLineStringPoints env s ls n)).
           0 \<le> m \<and> m \<le> turf_length env ls * 1000)
     \<and> sorted (map distanceAlongLine (getLineStringPoints env s ls n))
     \<and> last (map distanceAlongLine (getLineStringPoints env s ls n)) = turf_length env ls * 1000"
proof (rule impI)
  assume a: "0 \<le> turf_length env ls \<and> 2 \<le> n"
  from a have L: "0 \<le> turf_length env ls" and N: "2 \<le> n"
    by blast+
  note bounds = distances_props(1) [OF L N, where s = s]
  note srt = distances_props(2) [OF L N, where s = s]
  note ne = distances_props(3) [OF L N, where s = s]
  note lst = distances_props(4) [OF L N, where s = s]
  show "(\<forall>d \<in> set (getLineStringDistancesToCheck env s ls n). 0 \<le> d \<and> d \<le> turf_length env ls)
     \<and> sorted (getLineStringDistancesToCheck env s ls n)
     \<and> getLineStringDistancesToCheck env s ls n \<noteq> []
     \<and> last (getLineStringDistancesToCheck env s ls n) = turf_length env ls
     \<and> (\<forall>m \<in> set (map distanceAlongLine (getLineStringPoints env s ls n)).
           0 \<le> m \<and> m \<le> turf_length env ls * 1000)
     \<and> sorted (map distanceAlongLine (getLineStringPoints env s ls n))
     \<and> last (map distanceAlongLine (getLineStringPoints env s ls n)) = turf_length env ls * 1000"
    apply (intro conjI)
          apply (rule bounds)
         apply (rule srt)
        apply (rule ne)
       apply (rule lst)
      apply (rule meters_bounded [OF bounds])
     apply (rule meters_sorted [OF srt])
    apply (rule meters_last [OF ne lst])
    done
qed

text \<open>
  The example path with fifty points and a minimum spacing of 300 m: the distances are
  0, 0.3, 0.6, 0.9 and 1 km.
\<close>

theorem sample_distances_monotone_bounded_witness:
  "0 \<le> turf_length exampleCollaborators exampleLine \<and> (2::int) \<le> 50
   \<and> getLineStringDistancesToCheck exampleCollaborators
        (initialModuleState \<lparr> minKmBetweenPoints := Some 0.3 \<rparr>) exampleLine 50
       = [0, 0.3, 0.6, 0.9, 1]
   \<and> sorted (getLineStringDistancesToCheck exampleCollaborators
        (initialModuleState \<lparr> minKmBetweenPoints := Some 0.3 \<rparr>) exampleLine 50)
   \<and> last (getLineStringDistancesToCheck exampleCollaborators
        (initialModuleState \<lparr> minKmBetweenPoints := Some 0.3 \<rparr>) exampleLine 50) = 1"
proof -
  let ?s = "initialModuleState \<lparr> minKmBetweenPoints := Some 0.3 \<rparr>"
  have len: "turf_length exampleCollaborators exampleLine = 1"
    by (simp add: exampleCollaborators_def)
  have val: "getLineStringDistancesToCheck exampleCollaborators ?s exampleLine 50 = [0, 0.3, 0.6, 0.9, 1]"
    by (simp add: distances_shape len stepDistanceOf_def initialModuleState_def upt_conv_Cons)
  from sample_distances_monotone_bounded [of exampleCollaborators exampleLine 50 ?s]
  have "sorted (getLineStringDistancesToCheck exampleCollaborators ?s exampleLine 50)
        \<and> last (getLineStringDistancesToCheck exampleCollaborators ?s exampleLine 50) = 1"
    using len by simp
  then show ?thesis using len val by simp
qed

subsection \<open>Tiles and matching\<close>

lemma requiredTilesLoop_objects:
  "requiredTilesObjects (requiredTilesLoop tiles index token s) =
     requiredTilesObjects s @
       map (\<lambda>(x, y, z). \<lparr> tile_coordinates = (x, y, z),
                         tile_smCoordinates = (real_of_int x * 256, real_of_int y * 256),
                         tileData = None \<rparr>) tiles"
  by (induction tiles index token s rule: requiredTilesLoop.induct)
     (simp_all add: getTerrainTilePixelArray_def TILE_SIZE_def)

lemma matchingTile_find:
  "matchingTile tiles p = find (\<lambda>tile. pointIsWithinTile p (tile_smCoordinates tile)) tiles"
  unfolding matchingTile_def by (induction tiles) auto

lemma matchingTile_within:
  assumes "matchingTile tiles p = Some tile"
  shows "pointIsWithinTile p (tile_smCoordinates tile)" and "tile \<in> set tiles"
  using assms unfolding matchingTile_find by (auto simp: find_Some_iff)

lemma matchingTile_None:
  "(matchingTile tiles p = None) = (\<forall>tile \<in> set tiles. \<not> pointIsWithinTile p (tile_smCoordinates tile))"
  unfolding matchingTile_find by (auto simp: find_None_iff)

text \<open>
  C5. The tile objects are built from the tile indices in the order the resolver returns
  them, each with the pixel origin (x * 256, y * 256); a point matches a tile exactly when
  its pixel coordinates lie in [origin, origin + 256] on both axes, both bounds included;
  and the tile chosen for a point is the first one in that order that matches (none when
  no tile matches).
\<close>

theorem tile_origin_and_first_match:
  "requiredTilesObjects (getTileArrayFromLineString env ls minZoom maxZoom token s) =
     requiredTilesObjects s @
       map (\<lambda>(x, y, z). \<lparr> tile_coordinates = (x, y, z),
                         tile_smCoordinates = (real_of_int x * 256, real_of_int y * 256),
                         tileData = None \<rparr>)
           (tileCover_tiles env ls minZoom maxZoom)
   \<and> pointIsWithinTile (px, py) (ox, oy) =
       (ox \<le> px \<and> px \<le> ox + 256 \<and> oy \<le> py \<and> py \<le> oy + 256)
   \<and> (matchingTile tiles p = Some tile) =
       (\<exists>i < length tiles. tiles ! i = tile
           \<and> pointIsWithinTile p (tile_smCoordinates (tiles ! i))
           \<and> (\<forall>j < i. \<not> pointIsWithinTile p (tile_smCoordinates (tiles ! j))))
   \<and> (matchingTile tiles p = None) =
       (\<forall>i < length tiles. \<not> pointIsWithinTile p (tile_smCoordinates (tiles ! i)))"
proof (intro conjI)
  show "requiredTilesObjects (getTileArrayFromLineString env ls minZoom maxZoom token s) =
     requiredTilesObjects s @
       map (\<lambda>(x, y, z). \<lparr> tile_coordinates = (x, y, z),
                         tile_smCoordinates = (real_of_int x * 256, real_of_int y * 256),
                         tileData = None \<rparr>)
           (tileCover_tiles env ls minZoom maxZoom)"
    unfolding getTileArrayFromLineString_def by (rule requiredTilesLoop_objects)
  show "pointIsWithinTile (px, py) (ox, oy) =
       (ox \<le> px \<and> px \<le> ox + 256 \<and> oy \<le> py \<and> py \<le> oy + 256)"
    by (simp add: pointIsWithinTile_def TILE_SIZE_def)
  show "(matchingTile tiles p = Some tile) =
       (\<exists>i < length tiles. tiles ! i = tile
           \<and> pointIsWithinTile p (tile_smCoordinates (tiles ! i))
           \<and> (\<forall>j < i. \<not> pointIsWithinTile p (tile_smCoordinates (tiles ! j))))"
    unfolding matchingTile_find find_Some_iff by blast
  show "(matchingTile tiles p = None) =
       (\<forall>i < length tiles. \<not> pointIsWithinTile p (tile_smCoordinates (tiles ! i)))"
    unfolding matchingTile_None by (simp add: all_set_conv_all_nth)
qed

text \<open>
  The pixel (4194560, 4194304) lies on the edge shared by the two adjacent tiles; both
  match, and the first is chosen.
\<close>

theorem tile_origin_and_first_match_witness:
  "requiredTilesObjects
       (getTileArrayFromLineString adjacentCollaborators exampleLine ZOOM_LEVEL ZOOM_LEVEL [] initialModuleState)
     = [\<lparr> tile_coordinates = (16384, 16384, 15), tile_smCoordinates = (4194304, 4194304), tileData = None \<rparr>,
        \<lparr> tile_coordinates = (16385, 16384, 15), tile_smCoordinates = (4194560, 4194304), tileData = None \<rparr>]
   \<and> pointIsWithinTile (4194560, 4194304) (4194304, 4194304)
   \<and> pointIsWithinTile (4194560, 4194304) (4194560, 4194304)
   \<and> matchingTile
        (requiredTilesObjects
          (getTileArrayFromLineString adjacentCollaborators exampleLine ZOOM_LEVEL ZOOM_LEVEL [] initialModuleState))
        (4194560, 4194304)
      = Some \<lparr> tile_coordinates = (16384, 16384, 15), tile_smCoordinates = (4194304, 4194304), tileData = None \<rparr>"
proof -
  let ?first = "\<lparr> tile_coordinates = (16384, 16384, 15), tile_smCoordinates = (4194304, 4194304), tileData = None \<rparr>"
  let ?second = "\<lparr> tile_coordinates = (16385, 16384, 15), tile_smCoordinates = (4194560, 4194304), tileData = None \<rparr>"
  let ?tiles = "requiredTilesObjects
       (getTileArrayFromLineString adjacentCollaborators exampleLine ZOOM_LEVEL ZOOM_LEVEL [] initialModuleState)"
  note claim = tile_origin_and_first_match
    [of adjacentCollaborators exampleLine ZOOM_LEVEL ZOOM_LEVEL "[]" initialModuleState]
  have tiles: "?tiles = [?first, ?second]"
    using claim [THEN conjunct1]
    by (simp add: adjacentCollaborators_def exampleCollaborators_def initialModuleState_def)
  have in1: "pointIsWithinTile (4194560, 4194304) (4194304, 4194304)"
    using claim [THEN conjunct2, THEN conjunct1, of 4194560 4194304 4194304 4194304] by simp
  have in2: "pointIsWithinTile (4194560, 4194304) (4194560, 4194304)"
    using claim [THEN conjunct2, THEN conjunct1, of 4194560 4194304 4194560 4194304] by simp
  have "\<exists>i < length [?first, ?second]. [?first, ?second] ! i = ?first
           \<and> pointIsWithinTile (4194560, 4194304) (tile_smCoordinates ([?first, ?second] ! i))
           \<and> (\<forall>j < i. \<not> pointIsWithinTile (4194560, 4194304) (tile_smCoordinates ([?first, ?second] ! j)))"
    using in1 by (intro exI [of _ 0]) simp
  then have "matchingTile [?first, ?second] (4194560, 4194304) = Some ?first"
    by (rule claim [THEN conjunct2, THEN conjunct2, THEN conjunct1, THEN iffD2])
  with tiles in1 in2 show ?thesis
    by (simp only: simp_thms)
qed

subsection \<open>Automatic spacing\<close>

text \<open>
  C7 (as the claim states it, refuted). On the equator one pixel covers about 4.777 m.
  The pipeline's minimum spacing is 4.8 m; rounding the pixel size times 10 up to one
  decimal gives 47.8 m.
\<close>

theorem auto_spacing_counterexample:
  "setMinKmBetweenPoints exampleLine Undefined initialModuleState
     = Inr (initialModuleState \<lparr> minKmBetweenPoints := Some (4.8 / 1000) \<rparr>)
   \<and> ceilingRoundedToOneDecimal (pixelGroundSizeAtLatitude 0 * 10) = 47.8"
proof -
  have c1: "\<lceil>(400750166860 / 8388608000 :: real)\<rceil> = 48"
    by (simp add: ceiling_eq_iff)
  have c2: "\<lceil>(4007501668600 / 8388608000 :: real)\<rceil> = 478"
    by (simp add: ceiling_eq_iff)
  show ?thesis
    by (simp add: setMinKmBetweenPoints_def exampleLine_def getPixelDistanceAtLatitudeInMeters_def
        ZOOM_LEVEL_def ceilingRoundedToOneDecimal_def pixelGroundSizeAtLatitude_def c1 c2)
qed

text \<open>
  C7 (amended). Under the automatic policy the minimum spacing in metres is the pixel
  ground size at the latitude of the path's first coordinate, rounded up to one decimal
  place: \<open>ceil(pixelGroundSizeAtLatitude(lat) * 10) / 10\<close>, where
  \<open>pixelGroundSizeAtLatitude(lat) = 40075016.686 * cos(lat in radians) / 2 ^ (15 + 8)\<close>.
\<close>

theorem auto_spacing_formula:
  "coordinates ls = (lon, lat) # rest \<longrightarrow>
     (\<exists>s'. setMinKmBetweenPoints ls Undefined s = Inr s'
        \<and> map_option (\<lambda>km. km * 1000) (minKmBetweenPoints s')
            = Some (ceilingRoundedToOneDecimal (pixelGroundSizeAtLatitude lat))
        \<and> ceilingRoundedToOneDecimal (pixelGroundSizeAtLatitude lat)
            = real_of_int \<lceil>pixelGroundSizeAtLatitude lat * 10\<rceil> / 10)
     \<and> getPixelDistanceAtLatitudeInMeters lat = pixelGroundSizeAtLatitude lat"
proof
  assume c: "coordinates ls = (lon, lat) # rest"
  have same: "getPixelDistanceAtLatitudeInMeters lat = pixelGroundSizeAtLatitude lat"
    by (simp add: getPixelDistanceAtLatitudeInMeters_def pixelGroundSizeAtLatitude_def ZOOM_LEVEL_def)
  let ?s' = "s \<lparr> minKmBetweenPoints :=
                     Some (real_of_int \<lceil>pixelGroundSizeAtLatitude lat * 10\<rceil> / 10000) \<rparr>"
  have run: "setMinKmBetweenPoints ls Undefined s = Inr ?s'"
    using c by (simp add: setMinKmBetweenPoints_def same)
  have metres: "map_option (\<lambda>km. km * 1000) (minKmBetweenPoints ?s')
            = Some (ceilingRoundedToOneDecimal (pixelGroundSizeAtLatitude lat))"
    by (simp add: ceilingRoundedToOneDecimal_def)
  have unfolded: "ceilingRoundedToOneDecimal (pixelGroundSizeAtLatitude lat)
            = real_of_int \<lceil>pixelGroundSizeAtLatitude lat * 10\<rceil> / 10"
    by (simp add: ceilingRoundedToOneDecimal_def)
  from run metres unfolded
  have "\<exists>s'. setMinKmBetweenPoints ls Undefined s = Inr s'
        \<and> map_option (\<lambda>km. km * 1000) (minKmBetweenPoints s')
            = Some (ceilingRoundedToOneDecimal (pixelGroundSizeAtLatitude lat))
        \<and> ceilingRoundedToOneDecimal (pixelGroundSizeAtLatitude lat)
            = real_of_int \<lceil>pixelGroundSizeAtLatitude lat * 10\<rceil> / 10"
    by blast
  with same show "(\<exists>s'. setMinKmBetweenPoints ls Undefined s = Inr s'
        \<and> map_option (\<lambda>km. km * 1000) (minKmBetweenPoints s')
            = Some (ceilingRoundedToOneDecimal (pixelGroundSizeAtLatitude lat))
        \<and> ceilingRoundedToOneDecimal (pixelGroundSizeAtLatitude lat)
            = real_of_int \<lceil>pixelGroundSizeAtLatitude lat * 10\<rceil> / 10)
     \<and> getPixelDistanceAtLatitudeInMeters lat = pixelGroundSizeAtLatitude lat"
    by blast
qed

text \<open>The example path starts on the equator: 4.8 m.\<close>

theorem auto_spacing_formula_witness:
  "coordinates exampleLine = (0, 0) # [(0.008993, 0)]
   \<and> ceilingRoundedToOneDecimal (pixelGroundSizeAtLatitude 0) = 4.8
   \<and> (\<exists>s'. setMinKmBetweenPoints exampleLine Undefined initialModuleState = Inr s'
         \<and> map_option (\<lambda>km. km * 1000) (minKmBetweenPoints s') = Some 4.8)"
proof -
  have c: "coordinates exampleLine = (0, 0) # [(0.008993, 0)]"
    by (simp add: exampleLine_def)
  have c1: "\<lceil>(400750166860 / 8388608000 :: real)\<rceil> = 48"
    by (simp add: ceiling_eq_iff)
  have v: "ceilingRoundedToOneDecimal (pixelGroundSizeAtLatitude 0) = 4.8"
    by (simp add: ceilingRoundedToOneDecimal_def pixelGroundSizeAtLatitude_def c1)
  from auto_spacing_formula [of exampleLine 0 0 "[(0.008993, 0)]" initialModuleState, THEN mp, OF c]
  have "\<exists>s'. setMinKmBetweenPoints exampleLine Undefined initialModuleState = Inr s'
         \<and> map_option (\<lambda>km. km * 1000) (minKmBetweenPoints s') = Some 4.8"
    unfolding v by blast
  with c v show ?thesis by (simp only: simp_thms)
qed

subsection \<open>Requesting and awaiting the tiles\<close>

lemma requiredTilesLoop_promises:
  "tilePromises (requiredTilesLoop tiles index token s) =
     tilePromises s @
       map (\<lambda>(k, xyz). \<lparr> request_xyz = xyz, requiredTilesObjectsIndex = k, access_token = token \<rparr>)
           (zip [index ..< index + length tiles] tiles)"
proof (induction tiles index token s rule: requiredTilesLoop.induct)
  case (1 index token s)
  show ?case by simp
next
  case (2 x y z rest index token s)
  have "[index ..< index + length ((x, y, z) # rest)] = index # [Suc index ..< Suc index + length rest]"
    by (subst upt_rec) simp
  then show ?case
    using "2.IH" by (simp add: getTerrainTilePixelArray_def)
qed

lemma requiredTilesLoop_minKm:
  "minKmBetweenPoints (requiredTilesLoop tiles index token s) = minKmBetweenPoints s"
  by (induction tiles index token s rule: requiredTilesLoop.induct)
     (simp_all add: getTerrainTilePixelArray_def)

lemma getTileArray_fresh:
  fixes env :: collaborators and ls :: lineString and minZoom maxZoom :: nat
    and token :: string and s :: moduleState
  assumes "requiredTilesObjects s = []" "tilePromises s = []"
  defines "s3 \<equiv> getTileArrayFromLineString env ls minZoom maxZoom token s"
  shows "map tile_smCoordinates (requiredTilesObjects s3)
           = map (\<lambda>(x, y, z). (real_of_int x * TILE_SIZE, real_of_int y * TILE_SIZE))
               (tileCover_tiles env ls minZoom maxZoom)"
    and "length (tilePromises s3) = length (tileCover_tiles env ls minZoom maxZoom)"
    and "\<forall>k < length (tileCover_tiles env ls minZoom maxZoom).
           request_xyz (tilePromises s3 ! k) = tileCover_tiles env ls minZoom maxZoom ! k
           \<and> access_token (tilePromises s3 ! k) = token"
    and "promisesInRange s3"
    and "minKmBetweenPoints s3 = minKmBetweenPoints s"
proof -
  let ?tiles = "tileCover_tiles env ls minZoom maxZoom"
  have objs: "requiredTilesObjects s3 =
       map (\<lambda>(x, y, z). \<lparr> tile_coordinates = (x, y, z),
                         tile_smCoordinates = (real_of_int x * 256, real_of_int y * 256),
                         tileData = None \<rparr>) ?tiles"
    unfolding s3_def getTileArrayFromLineString_def requiredTilesLoop_objects assms(1) by simp
  have proms: "tilePromises s3 =
       map (\<lambda>(k, xyz). \<lparr> request_xyz = xyz, requiredTilesObjectsIndex = k, access_token = token \<rparr>)
           (zip [0 ..< length ?tiles] ?tiles)"
    unfolding s3_def getTileArrayFromLineString_def requiredTilesLoop_promises assms(2) by simp
  show "map tile_smCoordinates (requiredTilesObjects s3)
           = map (\<lambda>(x, y, z). (real_of_int x * TILE_SIZE, real_of_int y * TILE_SIZE)) ?tiles"
    unfolding objs by (simp add: TILE_SIZE_def split_def comp_def)
  show "length (tilePromises s3) = length ?tiles"
    unfolding proms by simp
  show "\<forall>k < length ?tiles.
           request_xyz (tilePromises s3 ! k) = ?tiles ! k \<and> access_token (tilePromises s3 ! k) = token"
    unfolding proms by simp
  show "promisesInRange s3"
    unfolding promisesInRange_def list_all_iff objs proms
    by (auto simp: set_zip)
  show "minKmBetweenPoints s3 = minKmBetweenPoints s"
    unfolding s3_def getTileArrayFromLineString_def by (rule requiredTilesLoop_minKm)
qed

lemma tilePromiseSettles_Inr:
  assumes "tilePromiseSettles env p s = Inr s'"
  shows "tilePromises s' = tilePromises s"
    and "map tile_smCoordinates (requiredTilesObjects s') = map tile_smCoordinates (requiredTilesObjects s)"
    and "length (requiredTilesObjects s') = length (requiredTilesObjects s)"
    and "\<exists>grid. getPixels env (request_xyz p) (access_token p) = Inr grid"
proof -
  obtain x y z where xyz: "request_xyz p = (x, y, z)"
    by (cases "request_xyz p") auto
  from assms obtain grid where
    got: "getPixels env (x, y, z) (access_token p) = Inr grid"
    and inr: "requiredTilesObjectsIndex p < length (requiredTilesObjects s)"
    and s': "s' = s \<lparr> requiredTilesObjects :=
                      (requiredTilesObjects s)
                        [requiredTilesObjectsIndex p :=
                           (requiredTilesObjects s ! requiredTilesObjectsIndex p) \<lparr> tileData := Some grid \<rparr>] \<rparr>"
    by (auto simp: tilePromiseSettles_def xyz getPromisifiedTileRequest_def Let_def
             split: sum.splits if_splits)
  show "tilePromises s' = tilePromises s" by (simp add: s')
  show "length (requiredTilesObjects s') = length (requiredTilesObjects s)" by (simp add: s')
  show "\<exists>grid. getPixels env (request_xyz p) (access_token p) = Inr grid"
    using got xyz by simp
  have "map tile_smCoordinates (requiredTilesObjects s')
          = (map tile_smCoordinates (requiredTilesObjects s))
              [requiredTilesObjectsIndex p :=
                 map tile_smCoordinates (requiredTilesObjects s) ! requiredTilesObjectsIndex p]"
    using inr by (simp add: s' map_update)
  then show "map tile_smCoordinates (requiredTilesObjects s') = map tile_smCoordinates (requiredTilesObjects s)"
    by simp
qed

lemma tilePromiseSettles_Inl:
  assumes "tilePromiseSettles env p s = Inl e"
    and "requiredTilesObjectsIndex p < length (requiredTilesObjects s)"
  shows "getPixels env (request_xyz p) (access_token p) = Inl e"
proof -
  obtain x y z where xyz: "request_xyz p = (x, y, z)"
    by (cases "request_xyz p") auto
  from assms show ?thesis
    by (auto simp: tilePromiseSettles_def xyz getPromisifiedTileRequest_def Let_def
             split: sum.splits if_splits)
qed

lemma tilePromiseSettles_in_range:
  assumes "promisesInRange s" "tilePromiseSettles env p s = Inr s'"
  shows "promisesInRange s'"
  using assms tilePromiseSettles_Inr(1,3) [OF assms(2)]
  by (simp add: promisesInRange_def)

lemma settleInOrder_preserves:
  "settleInOrder env order s = (r, s') \<Longrightarrow>
     tilePromises s' = tilePromises s
     \<and> map tile_smCoordinates (requiredTilesObjects s') = map tile_smCoordinates (requiredTilesObjects s)"
proof (induction order arbitrary: s)
  case Nil
  then show ?case by simp
next
  case (Cons k later)
  show ?case
  proof (cases "k < length (tilePromises s)")
    case False
    with Cons show ?thesis by simp
  next
    case True
    show ?thesis
    proof (cases "tilePromiseSettles env (tilePromises s ! k) s")
      case (Inl e)
      with True Cons.prems show ?thesis by simp
    next
      case (Inr s1)
      with True Cons.prems have "settleInOrder env later s1 = (r, s')" by simp
      from Cons.IH [OF this] tilePromiseSettles_Inr(1,2) [OF Inr] show ?thesis by simp
    qed
  qed
qed

lemma settleInOrder_Some:
  assumes "promisesInRange s" "settleInOrder env order s = (Some e, s')"
  shows "\<exists>k \<in> set order. k < length (tilePromises s)
           \<and> getPixels env (request_xyz (tilePromises s ! k)) (access_token (tilePromises s ! k)) = Inl e"
  using assms
proof (induction order arbitrary: s)
  case Nil
  then show ?case by simp
next
  case (Cons k later)
  show ?case
  proof (cases "k < length (tilePromises s)")
    case False
    with Cons.prems have "settleInOrder env later s = (Some e, s')" by simp
    from Cons.IH [OF Cons.prems(1) this] show ?thesis by auto
  next
    case True
    then have inr: "requiredTilesObjectsIndex (tilePromises s ! k) < length (requiredTilesObjects s)"
      using Cons.prems(1) by (simp add: promisesInRange_def list_all_length)
    show ?thesis
    proof (cases "tilePromiseSettles env (tilePromises s ! k) s")
      case (Inl e')
      with True Cons.prems(2) have "e' = e" by simp
      with tilePromiseSettles_Inl [OF Inl inr] True show ?thesis by auto
    next
      case (Inr s1)
      with True Cons.prems(2) have later: "settleInOrder env later s1 = (Some e, s')" by simp
      have same: "tilePromises s1 = tilePromises s"
        by (rule tilePromiseSettles_Inr(1) [OF Inr])
      from Cons.IH [OF tilePromiseSettles_in_range [OF Cons.prems(1) Inr] later]
      show ?thesis unfolding same by auto
    qed
  qed
qed

lemma settleInOrder_fails:
  assumes "k \<in> set order" "k < length (tilePromises s)"
    and "getPixels env (request_xyz (tilePromises s ! k)) (access_token (tilePromises s ! k)) = Inl e"
  shows "\<exists>e' s'. settleInOrder env order s = (Some e', s')"
  using assms
proof (induction order arbitrary: s)
  case Nil
  then show ?case by simp
next
  case (Cons j later)
  show ?case
  proof (cases "j < length (tilePromises s)")
    case False
    with Cons.prems have "k \<in> set later" by auto
    from Cons.IH [OF this Cons.prems(2,3)] False show ?thesis by simp
  next
    case True
    show ?thesis
    proof (cases "tilePromiseSettles env (tilePromises s ! j) s")
      case (Inl e')
      with True show ?thesis by simp
    next
      case (Inr s1)
      have same: "tilePromises s1 = tilePromises s"
        by (rule tilePromiseSettles_Inr(1) [OF Inr])
      have "k \<noteq> j"
        using tilePromiseSettles_Inr(4) [OF Inr] Cons.prems(3) by auto
      with Cons.prems(1) have "k \<in> set later" by simp
      from Cons.IH [OF this, of s1] Cons.prems(2,3) same
      have "\<exists>e' s'. settleInOrder env later s1 = (Some e', s')" by simp
      with True Inr show ?thesis by simp
    qed
  qed
qed

lemma settleInOrder_None:
  assumes "promisesInRange s"
    and "\<forall>k \<in> set order. k < length (tilePromises s) \<longrightarrow>
           (\<exists>grid. getPixels env (request_xyz (tilePromises s ! k)) (access_token (tilePromises s ! k)) = Inr grid)"
  shows "\<exists>s'. settleInOrder env order s = (None, s')"
  using assms
proof (induction order arbitrary: s)
  case Nil
  then show ?case by simp
next
  case (Cons k later)
  show ?case
  proof (cases "k < length (tilePromises s)")
    case False
    from Cons.IH [OF Cons.prems(1)] Cons.prems(2) False show ?thesis by simp
  next
    case True
    then have inr: "requiredTilesObjectsIndex (tilePromises s ! k) < length (requiredTilesObjects s)"
      using Cons.prems(1) by (simp add: promisesInRange_def list_all_length)
    show ?thesis
    proof (cases "tilePromiseSettles env (tilePromises s ! k) s")
      case (Inl e)
      from tilePromiseSettles_Inl [OF Inl inr] Cons.prems(2) True show ?thesis by auto
    next
      case (Inr s1)
      have same: "tilePromises s1 = tilePromises s"
        by (rule tilePromiseSettles_Inr(1) [OF Inr])
      have "\<exists>s'. settleInOrder env later s1 = (None, s')"
        by (rule Cons.IH [OF tilePromiseSettles_in_range [OF Cons.prems(1) Inr]])
           (use Cons.prems(2) same in auto)
      with True Inr show ?thesis by simp
    qed
  qed
qed

lemma settleInOrder_None_fetched:
  assumes "promisesInRange s" "settleInOrder env order s = (None, s')"
  shows "\<forall>k \<in> set order. k < length (tilePromises s) \<longrightarrow>
           (\<exists>grid. getPixels env (request_xyz (tilePromises s ! k)) (access_token (tilePromises s ! k)) = Inr grid)"
  using assms
proof (induction order arbitrary: s)
  case Nil
  then show ?case by simp
next
  case (Cons k later)
  show ?case
  proof (cases "k < length (tilePromises s)")
    case False
    with Cons.prems have "settleInOrder env later s = (None, s')" by simp
    from Cons.IH [OF Cons.prems(1) this] False show ?thesis by simp
  next
    case True
    show ?thesis
    proof (cases "tilePromiseSettles env (tilePromises s ! k) s")
      case (Inl e)
      with True Cons.prems(2) show ?thesis by simp
    next
      case (Inr s1)
      with True Cons.prems(2) have later: "settleInOrder env later s1 = (None, s')" by simp
      have same: "tilePromises s1 = tilePromises s"
        by (rule tilePromiseSettles_Inr(1) [OF Inr])
      from Cons.IH [OF tilePromiseSettles_in_range [OF Cons.prems(1) Inr] later]
        tilePromiseSettles_Inr(4) [OF Inr]
      show ?thesis unfolding same by simp
    qed
  qed
qed

lemma promiseAll_Rejected:
  assumes "promisesInRange s" "promiseAll env s = (Rejected e, s')"
  shows "\<exists>k \<in> set (completionOrder env). k < length (tilePromises s)
           \<and> getPixels env (request_xyz (tilePromises s ! k)) (access_token (tilePromises s ! k)) = Inl e"
proof -
  from assms(2) have "settleInOrder env (completionOrder env) s = (Some e, s')"
    by (auto simp: promiseAll_def split: prod.splits option.splits if_splits)
  from settleInOrder_Some [OF assms(1) this] show ?thesis .
qed

lemma promiseAll_fails:
  assumes "k \<in> set (completionOrder env)" "k < length (tilePromises s)"
    and "getPixels env (request_xyz (tilePromises s ! k)) (access_token (tilePromises s ! k)) = Inl e"
  shows "\<exists>e' s'. promiseAll env s = (Rejected e', s')"
proof -
  from settleInOrder_fails [OF assms] obtain e' s'
    where "settleInOrder env (completionOrder env) s = (Some e', s')" by blast
  then show ?thesis by (simp add: promiseAll_def)
qed

lemma promiseAll_Resolved:
  assumes "promisesInRange s" "promiseAll env s = (Resolved u, s')"
  shows "map tile_smCoordinates (requiredTilesObjects s') = map tile_smCoordinates (requiredTilesObjects s)"
    and "\<forall>k < length (tilePromises s). k \<in> set (completionOrder env)
           \<and> (\<exists>grid. getPixels env (request_xyz (tilePromises s ! k)) (access_token (tilePromises s ! k)) = Inr grid)"
proof -
  from assms(2) have settled: "settleInOrder env (completionOrder env) s = (None, s')"
    and complete: "list_all (\<lambda>k. k \<in> set (completionOrder env)) [0 ..< length (tilePromises s)]"
    by (auto simp: promiseAll_def split: prod.splits option.splits if_splits)
  from settleInOrder_preserves [OF settled]
  show "map tile_smCoordinates (requiredTilesObjects s') = map tile_smCoordinates (requiredTilesObjects s)"
    by simp
  from complete have all: "\<forall>k < length (tilePromises s). k \<in> set (completionOrder env)"
    by (simp add: list_all_iff)
  with settleInOrder_None_fetched [OF assms(1) settled]
  show "\<forall>k < length (tilePromises s). k \<in> set (completionOrder env)
           \<and> (\<exists>grid. getPixels env (request_xyz (tilePromises s ! k)) (access_token (tilePromises s ! k)) = Inr grid)"
    by blast
qed

lemma promiseAll_settles:
  assumes "\<forall>k < length (tilePromises s). k \<in> set (completionOrder env)"
  shows "fst (promiseAll env s) \<noteq> Pending"
proof -
  from assms have "list_all (\<lambda>k. k \<in> set (completionOrder env)) [0 ..< length (tilePromises s)]"
    by (simp add: list_all_iff)
  then show ?thesis
    by (simp add: promiseAll_def split: prod.splits option.splits)
qed

lemma promiseAll_all_fetched:
  assumes "promisesInRange s"
    and "\<forall>k < length (tilePromises s). k \<in> set (completionOrder env)
           \<and> (\<exists>grid. getPixels env (request_xyz (tilePromises s ! k)) (access_token (tilePromises s ! k)) = Inr grid)"
  shows "\<exists>s'. promiseAll env s = (Resolved (), s')"
proof -
  from assms(2) have "\<forall>k \<in> set (completionOrder env). k < length (tilePromises s) \<longrightarrow>
           (\<exists>grid. getPixels env (request_xyz (tilePromises s ! k)) (access_token (tilePromises s ! k)) = Inr grid)"
    by blast
  from settleInOrder_None [OF assms(1) this] obtain s'
    where settled: "settleInOrder env (completionOrder env) s = (None, s')" by blast
  from assms(2) have "list_all (\<lambda>k. k \<in> set (completionOrder env)) [0 ..< length (tilePromises s)]"
    by (simp add: list_all_iff)
  with settled show ?thesis by (simp add: promiseAll_def)
qed

subsection \<open>Attaching the elevations\<close>

lemma addHeightToPoint_Inl:
  "addHeightToPoint tiles p = Inl e \<Longrightarrow> e = TypeError"
  by (auto simp: addHeightToPoint_def Let_def split: option.splits)

lemma addHeightToPoint_Inr:
  assumes "addHeightToPoint tiles p = Inr p'"
  shows "elevation p' \<noteq> None" and "distanceAlongLine p' = distanceAlongLine p"
    and "point_coordinates p' = point_coordinates p"
    and "\<exists>c tile. smCoordinates p = Some c \<and> matchingTile tiles c = Some tile"
  using assms by (auto simp: addHeightToPoint_def Let_def split: option.splits)

lemma addHeightToPointsGeoJSON_Inl:
  "addHeightToPointsGeoJSON tiles ps = Inl e \<Longrightarrow> e = TypeError"
  by (induction ps arbitrary: e)
     (auto split: sum.splits dest: addHeightToPoint_Inl)

lemma addHeightToPointsGeoJSON_Inr:
  assumes "addHeightToPointsGeoJSON tiles ps = Inr ps'"
  shows "\<forall>p' \<in> set ps'. elevation p' \<noteq> None"
    and "map distanceAlongLine ps' = map distanceAlongLine ps"
    and "map point_coordinates ps' = map point_coordinates ps"
    and "\<forall>p \<in> set ps. \<exists>c tile. smCoordinates p = Some c \<and> matchingTile tiles c = Some tile"
  using assms
proof (induction ps arbitrary: ps')
  case Nil
  {
    case 1 then show ?case by simp
  next
    case 2 then show ?case by simp
  next
    case 3 then show ?case by simp
  next
    case 4 then show ?case by simp
  }
next
  case (Cons p rest)
  {
    case 1
    then obtain p' rest' where p': "addHeightToPoint tiles p = Inr p'"
      and rest': "addHeightToPointsGeoJSON tiles rest = Inr rest'" and ps': "ps' = p' # rest'"
      by (auto split: sum.splits)
    from Cons.IH(1) [OF rest'] addHeightToPoint_Inr(1) [OF p'] show ?case
      unfolding ps' by simp
  next
    case 2
    then obtain p' rest' where p': "addHeightToPoint tiles p = Inr p'"
      and rest': "addHeightToPointsGeoJSON tiles rest = Inr rest'" and ps': "ps' = p' # rest'"
      by (auto split: sum.splits)
    from Cons.IH(2) [OF rest'] addHeightToPoint_Inr(2) [OF p'] show ?case
      unfolding ps' by simp
  next
    case 3
    then obtain p' rest' where p': "addHeightToPoint tiles p = Inr p'"
      and rest': "addHeightToPointsGeoJSON tiles rest = Inr rest'" and ps': "ps' = p' # rest'"
      by (auto split: sum.splits)
    from Cons.IH(3) [OF rest'] addHeightToPoint_Inr(3) [OF p'] show ?case
      unfolding ps' by simp
  next
    case 4
    then obtain p' rest' where p': "addHeightToPoint tiles p = Inr p'"
      and rest': "addHeightToPointsGeoJSON tiles rest = Inr rest'" and ps': "ps' = p' # rest'"
      by (auto split: sum.splits)
    from Cons.IH(4) [OF rest'] addHeightToPoint_Inr(4) [OF p'] show ?case
      by simp
  }
qed

subsection \<open>The whole run\<close>

lemma setMinKmBetweenPoints_Inl:
  "setMinKmBetweenPoints ls policy s = Inl e \<Longrightarrow>
     e = TypeError \<and> policy = Undefined \<and> coordinates ls = []"
  by (auto simp: setMinKmBetweenPoints_def split: minMeters.splits list.splits)

lemma setMinKmBetweenPoints_Inr:
  "setMinKmBetweenPoints ls policy s = Inr s2 \<Longrightarrow>
     requiredTilesObjects s2 = requiredTilesObjects s \<and> tilePromises s2 = tilePromises s"
  by (auto simp: setMinKmBetweenPoints_def split: minMeters.splits list.splits)

lemma setMinKmBetweenPoints_total:
  "policy \<noteq> Undefined \<or> coordinates ls \<noteq> [] \<Longrightarrow> \<exists>s2. setMinKmBetweenPoints ls policy s = Inr s2"
  by (auto simp: setMinKmBetweenPoints_def split: minMeters.splits list.splits)

lemma run_sync_error:
  assumes "setMinKmBetweenPoints ls policy (s0 \<lparr> requiredTilesObjects := [], tilePromises := [] \<rparr>) = Inl e"
  shows "getLineStringElevationPoints env ls n token policy s0
           = (Rejected e, s0 \<lparr> requiredTilesObjects := [], tilePromises := [] \<rparr>)"
  using assms by (simp add: getLineStringElevationPoints_def)

lemma run_after_sync:
  assumes "setMinKmBetweenPoints ls policy (s0 \<lparr> requiredTilesObjects := [], tilePromises := [] \<rparr>) = Inr s2"
  shows "getLineStringElevationPoints env ls n token policy s0 =
     (case promiseAll env (getTileArrayFromLineString env ls ZOOM_LEVEL ZOOM_LEVEL token s2) of
        (Pending, s4) \<Rightarrow> (Pending, s4)
      | (Rejected e, s4) \<Rightarrow> (Rejected e, s4)
      | (Resolved u, s4) \<Rightarrow>
          (case addHeightToPointsGeoJSON (requiredTilesObjects s4)
                  (addXYZCoordinatesToPointsGeoJSON env (getLineStringPoints env s2 ls n) ZOOM_LEVEL) of
             Inl e \<Rightarrow> (Rejected e, s4)
           | Inr points \<Rightarrow> (Resolved (getFormattedPointsResult points), s4)))"
  using assms by (simp add: getLineStringElevationPoints_def Let_def)

text \<open>What the tiles requested by a run are, whatever the module state was before.\<close>

lemma run_requests:
  fixes env :: collaborators and ls :: lineString and token :: string and s0 s2 :: moduleState
  assumes "setMinKmBetweenPoints ls policy (s0 \<lparr> requiredTilesObjects := [], tilePromises := [] \<rparr>) = Inr s2"
  defines "s3 \<equiv> getTileArrayFromLineString env ls ZOOM_LEVEL ZOOM_LEVEL token s2"
  defines "tiles \<equiv> tileCover_tiles env ls ZOOM_LEVEL ZOOM_LEVEL"
  shows "promisesInRange s3"
    and "length (tilePromises s3) = length tiles"
    and "\<forall>k < length tiles. getPixels env (request_xyz (tilePromises s3 ! k)) (access_token (tilePromises s3 ! k))
                              = getPixels env (tiles ! k) token"
    and "map tile_smCoordinates (requiredTilesObjects s3)
           = map (\<lambda>(x, y, z). (real_of_int x * TILE_SIZE, real_of_int y * TILE_SIZE)) tiles"
proof -
  from setMinKmBetweenPoints_Inr [OF assms(1)]
  have e1: "requiredTilesObjects s2 = []" and e2: "tilePromises s2 = []" by simp_all
  note fresh = getTileArray_fresh [OF e1 e2, of env ls ZOOM_LEVEL ZOOM_LEVEL token]
  show "promisesInRange s3" unfolding s3_def by (rule fresh(4))
  show "length (tilePromises s3) = length tiles" unfolding s3_def tiles_def by (rule fresh(2))
  show "\<forall>k < length tiles. getPixels env (request_xyz (tilePromises s3 ! k)) (access_token (tilePromises s3 ! k))
                              = getPixels env (tiles ! k) token"
    unfolding s3_def tiles_def using fresh(3) by simp
  show "map tile_smCoordinates (requiredTilesObjects s3)
           = map (\<lambda>(x, y, z). (real_of_int x * TILE_SIZE, real_of_int y * TILE_SIZE)) tiles"
    unfolding s3_def tiles_def by (rule fresh(1))
qed

lemma run_rejected_by_fetch:
  assumes sync: "policy \<noteq> Undefined \<or> coordinates ls \<noteq> []"
    and k: "k < length (tileCover_tiles env ls ZOOM_LEVEL ZOOM_LEVEL)"
    and completed: "k \<in> set (completionOrder env)"
    and failed: "getPixels env (tileCover_tiles env ls ZOOM_LEVEL ZOOM_LEVEL ! k) token = Inl e"
  shows "\<exists>k' e'. k' < length (tileCover_tiles env ls ZOOM_LEVEL ZOOM_LEVEL)
           \<and> getPixels env (tileCover_tiles env ls ZOOM_LEVEL ZOOM_LEVEL ! k') token = Inl e'
           \<and> fst (getLineStringElevationPoints env ls n token policy s0) = Rejected e'"
proof -
  let ?tiles = "tileCover_tiles env ls ZOOM_LEVEL ZOOM_LEVEL"
  from setMinKmBetweenPoints_total [OF sync] obtain s2
    where s2: "setMinKmBetweenPoints ls policy (s0 \<lparr> requiredTilesObjects := [], tilePromises := [] \<rparr>) = Inr s2"
    by blast
  let ?s3 = "getTileArrayFromLineString env ls ZOOM_LEVEL ZOOM_LEVEL token s2"
  note req = run_requests [OF s2, of env token]
  have k3: "k < length (tilePromises ?s3)" using k req(2) by simp
  have f3: "getPixels env (request_xyz (tilePromises ?s3 ! k)) (access_token (tilePromises ?s3 ! k)) = Inl e"
    using req(3) k failed by simp
  from promiseAll_fails [OF completed k3 f3] obtain e' s4
    where rej: "promiseAll env ?s3 = (Rejected e', s4)" by blast
  from promiseAll_Rejected [OF req(1) rej] obtain k'
    where "k' < length (tilePromises ?s3)"
      and "getPixels env (request_xyz (tilePromises ?s3 ! k')) (access_token (tilePromises ?s3 ! k')) = Inl e'"
    by blast
  then have "k' < length ?tiles" and "getPixels env (?tiles ! k') token = Inl e'"
    using req(2,3) by simp_all
  moreover have "fst (getLineStringElevationPoints env ls n token policy s0) = Rejected e'"
    unfolding run_after_sync [OF s2] rej by simp
  ultimately show ?thesis by blast
qed

lemma run_resolved:
  assumes res: "fst (getLineStringElevationPoints env ls n token policy s0) = Resolved fc"
  shows "\<exists>s2. setMinKmBetweenPoints ls policy (s0 \<lparr> requiredTilesObjects := [], tilePromises := [] \<rparr>) = Inr s2
            \<and> map distanceAlongLine (features fc)
                 = map (\<lambda>d. d * 1000) (getLineStringDistancesToCheck env s2 ls n)
            \<and> map point_coordinates (features fc)
                 = map (turf_along env ls) (getLineStringDistancesToCheck env s2 ls n)"
    and "\<forall>f \<in> set (features fc). elevation f \<noteq> None \<and> smCoordinates f = None"
    and "\<forall>k < length (tileCover_tiles env ls ZOOM_LEVEL ZOOM_LEVEL).
           k \<in> set (completionOrder env)
           \<and> (\<exists>grid. getPixels env (tileCover_tiles env ls ZOOM_LEVEL ZOOM_LEVEL ! k) token = Inr grid)"
proof -
  let ?reset = "s0 \<lparr> requiredTilesObjects := [], tilePromises := [] \<rparr>"
  obtain s2 where s2: "setMinKmBetweenPoints ls policy ?reset = Inr s2"
  proof (cases "setMinKmBetweenPoints ls policy ?reset")
    case (Inl e)
    from res show ?thesis unfolding run_sync_error [OF Inl] by simp
  next
    case (Inr s2)
    then show ?thesis by (rule that)
  qed
  let ?s3 = "getTileArrayFromLineString env ls ZOOM_LEVEL ZOOM_LEVEL token s2"
  let ?pts = "addXYZCoordinatesToPointsGeoJSON env (getLineStringPoints env s2 ls n) ZOOM_LEVEL"
  note req = run_requests [OF s2, of env token]
  from res obtain u s4 points where all: "promiseAll env ?s3 = (Resolved u, s4)"
    and hts: "addHeightToPointsGeoJSON (requiredTilesObjects s4) ?pts = Inr points"
    and fc: "fc = getFormattedPointsResult points"
    unfolding run_after_sync [OF s2]
    by (auto split: prod.splits promise.splits sum.splits)
  note h = addHeightToPointsGeoJSON_Inr [OF hts]
  have d: "map distanceAlongLine (features fc) = map (\<lambda>d. d * 1000) (getLineStringDistancesToCheck env s2 ls n)"
    unfolding fc using h(2)
    by (simp add: getFormattedPointsResult_def comp_def addXYZCoordinatesToPointsGeoJSON_def
        distances_meters [symmetric])
  have c: "map point_coordinates (features fc) = map (turf_along env ls) (getLineStringDistancesToCheck env s2 ls n)"
    unfolding fc using h(3)
    by (simp add: getFormattedPointsResult_def comp_def addXYZCoordinatesToPointsGeoJSON_def
        getLineStringPoints_def getPointsToCheck_def)
  from s2 d c
  show "\<exists>s2. setMinKmBetweenPoints ls policy ?reset = Inr s2
            \<and> map distanceAlongLine (features fc)
                 = map (\<lambda>d. d * 1000) (getLineStringDistancesToCheck env s2 ls n)
            \<and> map point_coordinates (features fc)
                 = map (turf_along env ls) (getLineStringDistancesToCheck env s2 ls n)"
    by blast
  show "\<forall>f \<in> set (features fc). elevation f \<noteq> None \<and> smCoordinates f = None"
    unfolding fc using h(1) by (auto simp: getFormattedPointsResult_def)
  from promiseAll_Resolved(2) [OF req(1) all] req(2,3)
  show "\<forall>k < length (tileCover_tiles env ls ZOOM_LEVEL ZOOM_LEVEL).
           k \<in> set (completionOrder env)
           \<and> (\<exists>grid. getPixels env (tileCover_tiles env ls ZOOM_LEVEL ZOOM_LEVEL ! k) token = Inr grid)"
    by simp
qed

lemma run_settles:
  assumes "\<forall>k < length (tileCover_tiles env ls ZOOM_LEVEL ZOOM_LEVEL). k \<in> set (completionOrder env)"
  shows "fst (getLineStringElevationPoints env ls n token policy s0) \<noteq> Pending"
proof (cases "setMinKmBetweenPoints ls policy (s0 \<lparr> requiredTilesObjects := [], tilePromises := [] \<rparr>)")
  case (Inl e)
  show ?thesis unfolding run_sync_error [OF Inl] by simp
next
  case (Inr s2)
  let ?s3 = "getTileArrayFromLineString env ls ZOOM_LEVEL ZOOM_LEVEL token s2"
  note req = run_requests [OF Inr, of env token]
  have "fst (promiseAll env ?s3) \<noteq> Pending"
    by (rule promiseAll_settles) (use assms req(2) in simp)
  then show ?thesis
    unfolding run_after_sync [OF Inr]
    by (auto split: prod.splits promise.splits sum.splits)
qed

lemmas run_eval =
  getLineStringElevationPoints_def setMinKmBetweenPoints_def getLineStringPoints_def
  getPointsToCheck_def distances_shape stepDistanceOf_def getTileArrayFromLineString_def
  getTerrainTilePixelArray_def addXYZCoordinatesToPointsGeoJSON_def promiseAll_def
  tilePromiseSettles_def getPromisifiedTileRequest_def addHeightToPoint_def matchingTile_def
  relativeToTile_def pointIsWithinTile_def getFormattedPointsResult_def ZOOM_LEVEL_def
  TILE_SIZE_def round_def upt_conv_Cons Let_def getPixelDistanceAtLatitudeInMeters_def


text \<open>
  C4. In a run that gets as far as requesting its tiles, if the request of one tile
  completes with an error, the run is rejected, with the error of a failed tile request
  (the first to complete) and without a collection. A run that resolves carries the
  complete collection: one feature per sample distance, each with an elevation and
  without pixel coordinates, and every tile was fetched. Once every request has completed
  the run has settled: it is either rejected with one error or resolved.
\<close>

theorem fetch_failure_rejects_whole_run:
  "(\<forall>k e. (policy \<noteq> Undefined \<or> coordinates ls \<noteq> [])
        \<and> k < length (tileCover_tiles env ls ZOOM_LEVEL ZOOM_LEVEL)
        \<and> k \<in> set (completionOrder env)
        \<and> getPixels env (tileCover_tiles env ls ZOOM_LEVEL ZOOM_LEVEL ! k) token = Inl e \<longrightarrow>
      (\<exists>k' e'. k' < length (tileCover_tiles env ls ZOOM_LEVEL ZOOM_LEVEL)
          \<and> getPixels env (tileCover_tiles env ls ZOOM_LEVEL ZOOM_LEVEL ! k') token = Inl e'
          \<and> fst (getLineStringElevationPoints env ls n token policy s0) = Rejected e'))
   \<and> (\<forall>fc. fst (getLineStringElevationPoints env ls n token policy s0) = Resolved fc \<longrightarrow>
        (\<exists>s2. setMinKmBetweenPoints ls policy (s0 \<lparr> requiredTilesObjects := [], tilePromises := [] \<rparr>) = Inr s2
            \<and> map distanceAlongLine (features fc)
                 = map (\<lambda>d. d * 1000) (getLineStringDistancesToCheck env s2 ls n)
            \<and> map point_coordinates (features fc)
                 = map (turf_along env ls) (getLineStringDistancesToCheck env s2 ls n))
        \<and> (\<forall>f \<in> set (features fc). elevation f \<noteq> None \<and> smCoordinates f = None)
        \<and> (\<forall>k < length (tileCover_tiles env ls ZOOM_LEVEL ZOOM_LEVEL).
              k \<in> set (completionOrder env)
              \<and> (\<exists>grid. getPixels env (tileCover_tiles env ls ZOOM_LEVEL ZOOM_LEVEL ! k) token = Inr grid)))
   \<and> ((\<forall>k < length (tileCover_tiles env ls ZOOM_LEVEL ZOOM_LEVEL). k \<in> set (completionOrder env)) \<longrightarrow>
        (\<exists>e. fst (getLineStringElevationPoints env ls n token policy s0) = Rejected e)
        \<or> (\<exists>fc. fst (getLineStringElevationPoints env ls n token policy s0) = Resolved fc))"
proof (intro conjI)
  show "\<forall>k e. (policy \<noteq> Undefined \<or> coordinates ls \<noteq> [])
        \<and> k < length (tileCover_tiles env ls ZOOM_LEVEL ZOOM_LEVEL)
        \<and> k \<in> set (completionOrder env)
        \<and> getPixels env (tileCover_tiles env ls ZOOM_LEVEL ZOOM_LEVEL ! k) token = Inl e \<longrightarrow>
      (\<exists>k' e'. k' < length (tileCover_tiles env ls ZOOM_LEVEL ZOOM_LEVEL)
          \<and> getPixels env (tileCover_tiles env ls ZOOM_LEVEL ZOOM_LEVEL ! k') token = Inl e'
          \<and> fst (getLineStringElevationPoints env ls n token policy s0) = Rejected e')"
    by (intro allI impI, rule run_rejected_by_fetch [where policy = policy and ls = ls]) blast+
  show "\<forall>fc. fst (getLineStringElevationPoints env ls n token policy s0) = Resolved fc \<longrightarrow>
        (\<exists>s2. setMinKmBetweenPoints ls policy (s0 \<lparr> requiredTilesObjects := [], tilePromises := [] \<rparr>) = Inr s2
            \<and> map distanceAlongLine (features fc)
                 = map (\<lambda>d. d * 1000) (getLineStringDistancesToCheck env s2 ls n)
            \<and> map point_coordinates (features fc)
                 = map (turf_along env ls) (getLineStringDistancesToCheck env s2 ls n))
        \<and> (\<forall>f \<in> set (features fc). elevation f \<noteq> None \<and> smCoordinates f = None)
        \<and> (\<forall>k < length (tileCover_tiles env ls ZOOM_LEVEL ZOOM_LEVEL).
              k \<in> set (completionOrder env)
              \<and> (\<exists>grid. getPixels env (tileCover_tiles env ls ZOOM_LEVEL ZOOM_LEVEL ! k) token = Inr grid))"
  proof (rule allI, rule impI)
    fix fc
    assume r: "fst (getLineStringElevationPoints env ls n token policy s0) = Resolved fc"
    from run_resolved(1) [OF r] run_resolved(2) [OF r] run_resolved(3) [OF r]
    show "(\<exists>s2. setMinKmBetweenPoints ls policy (s0 \<lparr> requiredTilesObjects := [], tilePromises := [] \<rparr>) = Inr s2
            \<and> map distanceAlongLine (features fc)
                 = map (\<lambda>d. d * 1000) (getLineStringDistancesToCheck env s2 ls n)
            \<and> map point_coordinates (features fc)
                 = map (turf_along env ls) (getLineStringDistancesToCheck env s2 ls n))
        \<and> (\<forall>f \<in> set (features fc). elevation f \<noteq> None \<and> smCoordinates f = None)
        \<and> (\<forall>k < length (tileCover_tiles env ls ZOOM_LEVEL ZOOM_LEVEL).
              k \<in> set (completionOrder env)
              \<and> (\<exists>grid. getPixels env (tileCover_tiles env ls ZOOM_LEVEL ZOOM_LEVEL ! k) token = Inr grid))"
      by (simp only: simp_thms)
  qed
  show "(\<forall>k < length (tileCover_tiles env ls ZOOM_LEVEL ZOOM_LEVEL). k \<in> set (completionOrder env)) \<longrightarrow>
        (\<exists>e. fst (getLineStringElevationPoints env ls n token policy s0) = Rejected e)
        \<or> (\<exists>fc. fst (getLineStringElevationPoints env ls n token policy s0) = Resolved fc)"
  proof
    assume "\<forall>k < length (tileCover_tiles env ls ZOOM_LEVEL ZOOM_LEVEL). k \<in> set (completionOrder env)"
    from run_settles [OF this, of n token policy s0]
    show "(\<exists>e. fst (getLineStringElevationPoints env ls n token policy s0) = Rejected e)
        \<or> (\<exists>fc. fst (getLineStringElevationPoints env ls n token policy s0) = Resolved fc)"
      by (cases "fst (getLineStringElevationPoints env ls n token policy s0)") simp_all
  qed
qed

text \<open>
  Two tiles are requested; the second request completes first, with an error. The run is
  rejected with that error.
\<close>

theorem fetch_failure_rejects_whole_run_witness:
  "Null \<noteq> Undefined
   \<and> 1 < length (tileCover_tiles failingCollaborators exampleLine ZOOM_LEVEL ZOOM_LEVEL)
   \<and> 1 \<in> set (completionOrder failingCollaborators)
   \<and> getPixels failingCollaborators
        (tileCover_tiles failingCollaborators exampleLine ZOOM_LEVEL ZOOM_LEVEL ! 1) []
       = Inl (GetPixelsError ''tile not found'')
   \<and> fst (getLineStringElevationPoints failingCollaborators exampleLine 5 [] Null initialModuleState)
       = Rejected (GetPixelsError ''tile not found'')"
proof -
  let ?tiles = "tileCover_tiles failingCollaborators exampleLine ZOOM_LEVEL ZOOM_LEVEL"
  have tiles: "?tiles = [(16384, 16384, 15), (16385, 16384, 15)]"
    by (simp add: failingCollaborators_def adjacentCollaborators_def)
  have order: "completionOrder failingCollaborators = [1, 0]"
    by (simp add: failingCollaborators_def adjacentCollaborators_def)
  have fetch: "getPixels failingCollaborators xyz [] =
                 (if xyz = (16385, 16384, 15) then Inl (GetPixelsError ''tile not found'') else Inr uniformGrid)"
    for xyz by (simp add: failingCollaborators_def)
  have hyp: "(Null \<noteq> Undefined \<or> coordinates exampleLine \<noteq> [])
        \<and> 1 < length ?tiles \<and> 1 \<in> set (completionOrder failingCollaborators)
        \<and> getPixels failingCollaborators (?tiles ! 1) [] = Inl (GetPixelsError ''tile not found'')"
    by (simp add: tiles order fetch)
  from fetch_failure_rejects_whole_run
         [of Null exampleLine failingCollaborators "[]" 5 initialModuleState,
          THEN conjunct1, rule_format, OF hyp]
  obtain k' e' where k': "k' < length ?tiles"
    and f: "getPixels failingCollaborators (?tiles ! k') [] = Inl e'"
    and r: "fst (getLineStringElevationPoints failingCollaborators exampleLine 5 [] Null initialModuleState)
              = Rejected e'"
    by blast
  from k' have "k' = 0 \<or> k' = 1" unfolding tiles by auto
  with f have "e' = GetPixelsError ''tile not found''"
    unfolding tiles fetch by auto
  with r hyp show ?thesis by simp
qed

lemma run_rejected_cases:
  assumes "fst (getLineStringElevationPoints env ls n token policy s0) = Rejected e"
  shows "e = TypeError
         \<or> (\<exists>k < length (tileCover_tiles env ls ZOOM_LEVEL ZOOM_LEVEL).
               getPixels env (tileCover_tiles env ls ZOOM_LEVEL ZOOM_LEVEL ! k) token = Inl e)"
proof (cases "setMinKmBetweenPoints ls policy (s0 \<lparr> requiredTilesObjects := [], tilePromises := [] \<rparr>)")
  case (Inl e')
  from assms have "e' = e" unfolding run_sync_error [OF Inl] by simp
  with setMinKmBetweenPoints_Inl [OF Inl] show ?thesis by simp
next
  case (Inr s2)
  let ?s3 = "getTileArrayFromLineString env ls ZOOM_LEVEL ZOOM_LEVEL token s2"
  let ?pts = "addXYZCoordinatesToPointsGeoJSON env (getLineStringPoints env s2 ls n) ZOOM_LEVEL"
  note req = run_requests [OF Inr, of env token]
  obtain r s4 where all: "promiseAll env ?s3 = (r, s4)"
    by (cases "promiseAll env ?s3") auto
  show ?thesis
  proof (cases r)
    case Pending
    with assms all show ?thesis unfolding run_after_sync [OF Inr] by simp
  next
    case (Rejected e')
    with assms all have "e' = e" unfolding run_after_sync [OF Inr] by simp
    with promiseAll_Rejected [OF req(1) all [unfolded Rejected]] req(2,3)
    show ?thesis by auto
  next
    case (Resolved u)
    with assms all have "addHeightToPointsGeoJSON (requiredTilesObjects s4) ?pts = Inl e"
      unfolding run_after_sync [OF Inr] by (auto split: sum.splits)
    from addHeightToPointsGeoJSON_Inl [OF this] show ?thesis by simp
  qed
qed

lemma run_uncovered:
  assumes s2: "setMinKmBetweenPoints ls policy (s0 \<lparr> requiredTilesObjects := [], tilePromises := [] \<rparr>) = Inr s2"
    and d: "d \<in> set (getLineStringDistancesToCheck env s2 ls n)"
    and out: "\<forall>xyz \<in> set (tileCover_tiles env ls ZOOM_LEVEL ZOOM_LEVEL).
               \<not> pointIsWithinTile (sphericalMercator_px env (turf_along env ls d) ZOOM_LEVEL)
                   (real_of_int (fst xyz) * TILE_SIZE, real_of_int (fst (snd xyz)) * TILE_SIZE)"
  shows "fst (getLineStringElevationPoints env ls n token policy s0) \<noteq> Resolved fc"
proof
  assume res: "fst (getLineStringElevationPoints env ls n token policy s0) = Resolved fc"
  let ?s3 = "getTileArrayFromLineString env ls ZOOM_LEVEL ZOOM_LEVEL token s2"
  let ?pts = "addXYZCoordinatesToPointsGeoJSON env (getLineStringPoints env s2 ls n) ZOOM_LEVEL"
  let ?c = "sphericalMercator_px env (turf_along env ls d) ZOOM_LEVEL"
  note req = run_requests [OF s2, of env token]
  from res obtain u s4 points where all: "promiseAll env ?s3 = (Resolved u, s4)"
    and hts: "addHeightToPointsGeoJSON (requiredTilesObjects s4) ?pts = Inr points"
    unfolding run_after_sync [OF s2]
    by (auto split: prod.splits promise.splits sum.splits)
  have "\<exists>p \<in> set ?pts. smCoordinates p = Some ?c"
    using d by (auto simp: addXYZCoordinatesToPointsGeoJSON_def getLineStringPoints_def
        getPointsToCheck_def)
  with addHeightToPointsGeoJSON_Inr(4) [OF hts]
  obtain tile where m: "matchingTile (requiredTilesObjects s4) ?c = Some tile"
    by fastforce
  from matchingTile_within [OF m]
  have w: "pointIsWithinTile ?c (tile_smCoordinates tile)"
    and "tile_smCoordinates tile \<in> set (map tile_smCoordinates (requiredTilesObjects s4))"
    by simp_all
  then have "tile_smCoordinates tile
               \<in> set (map (\<lambda>(x, y, z). (real_of_int x * TILE_SIZE, real_of_int y * TILE_SIZE))
                        (tileCover_tiles env ls ZOOM_LEVEL ZOOM_LEVEL))"
    unfolding promiseAll_Resolved(1) [OF req(1) all] req(4) by simp
  then obtain xyz where "xyz \<in> set (tileCover_tiles env ls ZOOM_LEVEL ZOOM_LEVEL)"
    and "tile_smCoordinates tile = (real_of_int (fst xyz) * TILE_SIZE, real_of_int (fst (snd xyz)) * TILE_SIZE)"
    by (auto simp: split_def)
  with out w show False by auto
qed

text \<open>
  C8. If the pixel coordinates of some sample point lie in the box of none of the tiles
  requested, the run yields no collection: it is rejected once every request has
  completed (with a TypeError when all of them succeeded), and nothing is retried.
\<close>

theorem coverage_mismatch_rejects:
  "setMinKmBetweenPoints ls policy (s0 \<lparr> requiredTilesObjects := [], tilePromises := [] \<rparr>) = Inr s2
   \<and> d \<in> set (getLineStringDistancesToCheck env s2 ls n)
   \<and> (\<forall>xyz \<in> set (tileCover_tiles env ls ZOOM_LEVEL ZOOM_LEVEL).
         \<not> pointIsWithinTile (sphericalMercator_px env (turf_along env ls d) ZOOM_LEVEL)
             (real_of_int (fst xyz) * TILE_SIZE, real_of_int (fst (snd xyz)) * TILE_SIZE))
   \<longrightarrow>
     (\<forall>fc. fst (getLineStringElevationPoints env ls n token policy s0) \<noteq> Resolved fc)
     \<and> ((\<forall>k < length (tileCover_tiles env ls ZOOM_LEVEL ZOOM_LEVEL). k \<in> set (completionOrder env)) \<longrightarrow>
          (\<exists>e. fst (getLineStringElevationPoints env ls n token policy s0) = Rejected e))
     \<and> ((\<forall>k < length (tileCover_tiles env ls ZOOM_LEVEL ZOOM_LEVEL).
             k \<in> set (completionOrder env)
             \<and> (\<exists>grid. getPixels env (tileCover_tiles env ls ZOOM_LEVEL ZOOM_LEVEL ! k) token = Inr grid)) \<longrightarrow>
          fst (getLineStringElevationPoints env ls n token policy s0) = Rejected TypeError)"
proof (rule impI)
  let ?run = "fst (getLineStringElevationPoints env ls n token policy s0)"
  let ?tiles = "tileCover_tiles env ls ZOOM_LEVEL ZOOM_LEVEL"
  assume a: "setMinKmBetweenPoints ls policy (s0 \<lparr> requiredTilesObjects := [], tilePromises := [] \<rparr>) = Inr s2
   \<and> d \<in> set (getLineStringDistancesToCheck env s2 ls n)
   \<and> (\<forall>xyz \<in> set ?tiles.
         \<not> pointIsWithinTile (sphericalMercator_px env (turf_along env ls d) ZOOM_LEVEL)
             (real_of_int (fst xyz) * TILE_SIZE, real_of_int (fst (snd xyz)) * TILE_SIZE))"
  then have s2: "setMinKmBetweenPoints ls policy (s0 \<lparr> requiredTilesObjects := [], tilePromises := [] \<rparr>) = Inr s2"
    and d: "d \<in> set (getLineStringDistancesToCheck env s2 ls n)"
    and out: "\<forall>xyz \<in> set ?tiles.
         \<not> pointIsWithinTile (sphericalMercator_px env (turf_along env ls d) ZOOM_LEVEL)
             (real_of_int (fst xyz) * TILE_SIZE, real_of_int (fst (snd xyz)) * TILE_SIZE)"
    by blast+
  have never: "?run \<noteq> Resolved fc" for fc
    by (rule run_uncovered [OF s2 d out])
  have settled: "\<exists>e. ?run = Rejected e" if "\<forall>k < length ?tiles. k \<in> set (completionOrder env)"
    using run_settles [OF that, of n token policy s0] never
    by (cases ?run) auto
  have fetched: "?run = Rejected TypeError"
    if all: "\<forall>k < length ?tiles. k \<in> set (completionOrder env)
               \<and> (\<exists>grid. getPixels env (?tiles ! k) token = Inr grid)"
  proof -
    from all have "\<forall>k < length ?tiles. k \<in> set (completionOrder env)" by blast
    from settled [OF this] obtain e where e: "?run = Rejected e" by blast
    from run_rejected_cases [OF e] all have "e = TypeError" by fastforce
    with e show ?thesis by simp
  qed
  from never settled fetched
  show "(\<forall>fc. ?run \<noteq> Resolved fc)
     \<and> ((\<forall>k < length ?tiles. k \<in> set (completionOrder env)) \<longrightarrow> (\<exists>e. ?run = Rejected e))
     \<and> ((\<forall>k < length ?tiles. k \<in> set (completionOrder env)
             \<and> (\<exists>grid. getPixels env (?tiles ! k) token = Inr grid)) \<longrightarrow>
          ?run = Rejected TypeError)"
    by blast
qed

text \<open>
  The example path with a resolver that returns the tile (16390, 16384) only, six tiles
  to the east: the start of the path, at pixel (4194304, 4194304), is in no tile.
\<close>

theorem coverage_mismatch_rejects_witness:
  "setMinKmBetweenPoints exampleLine Null (initialModuleState \<lparr> requiredTilesObjects := [], tilePromises := [] \<rparr>)
     = Inr initialModuleState
   \<and> 0 \<in> set (getLineStringDistancesToCheck uncoveredCollaborators initialModuleState exampleLine 5)
   \<and> sphericalMercator_px uncoveredCollaborators (turf_along uncoveredCollaborators exampleLine 0) ZOOM_LEVEL
       = (4194304, 4194304)
   \<and> tileCover_tiles uncoveredCollaborators exampleLine ZOOM_LEVEL ZOOM_LEVEL = [(16390, 16384, 15)]
   \<and> \<not> pointIsWithinTile (4194304, 4194304) (16390 * TILE_SIZE, 16384 * TILE_SIZE)
   \<and> fst (getLineStringElevationPoints uncoveredCollaborators exampleLine 5 [] Null initialModuleState)
       = Rejected TypeError"
proof -
  have s2: "setMinKmBetweenPoints exampleLine Null
              (initialModuleState \<lparr> requiredTilesObjects := [], tilePromises := [] \<rparr>) = Inr initialModuleState"
    by (simp add: setMinKmBetweenPoints_def initialModuleState_def)
  have d: "0 \<in> set (getLineStringDistancesToCheck uncoveredCollaborators initialModuleState exampleLine 5)"
    by (simp add: distances_shape stepDistanceOf_def uncoveredCollaborators_def exampleCollaborators_def
        initialModuleState_def upt_conv_Cons)
  have px: "sphericalMercator_px uncoveredCollaborators (turf_along uncoveredCollaborators exampleLine 0) ZOOM_LEVEL
       = (4194304, 4194304)"
    by (simp add: uncoveredCollaborators_def exampleCollaborators_def)
  have tiles: "tileCover_tiles uncoveredCollaborators exampleLine ZOOM_LEVEL ZOOM_LEVEL = [(16390, 16384, 15)]"
    by (simp add: uncoveredCollaborators_def)
  have out: "\<not> pointIsWithinTile (4194304, 4194304) (16390 * TILE_SIZE, 16384 * TILE_SIZE)"
    by (simp add: pointIsWithinTile_def TILE_SIZE_def)
  have hyp: "setMinKmBetweenPoints exampleLine Null
              (initialModuleState \<lparr> requiredTilesObjects := [], tilePromises := [] \<rparr>) = Inr initialModuleState
   \<and> 0 \<in> set (getLineStringDistancesToCheck uncoveredCollaborators initialModuleState exampleLine 5)
   \<and> (\<forall>xyz \<in> set (tileCover_tiles uncoveredCollaborators exampleLine ZOOM_LEVEL ZOOM_LEVEL).
         \<not> pointIsWithinTile (sphericalMercator_px uncoveredCollaborators
                                 (turf_along uncoveredCollaborators exampleLine 0) ZOOM_LEVEL)
             (real_of_int (fst xyz) * TILE_SIZE, real_of_int (fst (snd xyz)) * TILE_SIZE))"
    using s2 d out unfolding px tiles by simp
  have all: "\<forall>k < length (tileCover_tiles uncoveredCollaborators exampleLine ZOOM_LEVEL ZOOM_LEVEL).
             k \<in> set (completionOrder uncoveredCollaborators)
             \<and> (\<exists>grid. getPixels uncoveredCollaborators
                   (tileCover_tiles uncoveredCollaborators exampleLine ZOOM_LEVEL ZOOM_LEVEL ! k) [] = Inr grid)"
    unfolding tiles by (simp add: uncoveredCollaborators_def exampleCollaborators_def)
  from coverage_mismatch_rejects [THEN mp, OF hyp, THEN conjunct2, THEN conjunct2, THEN mp, OF all]
  have "fst (getLineStringElevationPoints uncoveredCollaborators exampleLine 5 [] Null initialModuleState)
       = Rejected TypeError" .
  with s2 d px tiles out show ?thesis by (simp only: simp_thms)
qed

subsection \<open>Pixel lookup\<close>

lemma integer_offset:
  fixes p :: real
  assumes "p \<in> \<int>" and "0 \<le> p - (real_of_int x * TILE_SIZE)" and "p - (real_of_int x * TILE_SIZE) \<le> TILE_SIZE"
  shows "real_of_int \<lfloor>p - real_of_int x * TILE_SIZE\<rfloor> = p - real_of_int x * TILE_SIZE"
    and "0 \<le> \<lfloor>p - real_of_int x * TILE_SIZE\<rfloor>"
    and "\<lfloor>p - real_of_int x * TILE_SIZE\<rfloor> \<le> 256"
proof -
  have "p - real_of_int x * TILE_SIZE \<in> \<int>"
    using assms(1) by (simp add: TILE_SIZE_def)
  then show "real_of_int \<lfloor>p - real_of_int x * TILE_SIZE\<rfloor> = p - real_of_int x * TILE_SIZE"
    by (rule of_int_floor)
  show "0 \<le> \<lfloor>p - real_of_int x * TILE_SIZE\<rfloor>"
    using assms(2) by simp
  show "\<lfloor>p - real_of_int x * TILE_SIZE\<rfloor> \<le> 256"
    using assms(3) by (simp add: TILE_SIZE_def floor_le_iff)
qed

lemma projected_point:
  assumes "point \<in> set (addXYZCoordinatesToPointsGeoJSON env points zoom)"
  shows "\<exists>lonLat. smCoordinates point = Some (sphericalMercator_px env lonLat zoom)"
proof -
  from assms obtain q where "q \<in> set points"
    and "point = q \<lparr> smCoordinates := Some (sphericalMercator_px env (point_coordinates q) zoom) \<rparr>"
    by (auto simp: addXYZCoordinatesToPointsGeoJSON_def)
  then have "smCoordinates point = Some (sphericalMercator_px env (point_coordinates q) zoom)"
    by simp
  then show ?thesis by (rule exI)
qed

lemma fetched_tile_origin:
  assumes s2: "setMinKmBetweenPoints ls policy (s0 \<lparr> requiredTilesObjects := [], tilePromises := [] \<rparr>) = Inr s2"
    and all: "promiseAll env (getTileArrayFromLineString env ls ZOOM_LEVEL ZOOM_LEVEL token s2) = (Resolved u, s4)"
    and tile: "tile \<in> set (requiredTilesObjects s4)"
  shows "\<exists>x y. tile_smCoordinates tile = (real_of_int x * TILE_SIZE, real_of_int y * TILE_SIZE)"
proof -
  note req = run_requests [OF s2, of env token]
  from tile have "tile_smCoordinates tile \<in> set (map tile_smCoordinates (requiredTilesObjects s4))"
    by simp
  then have "tile_smCoordinates tile
               \<in> set (map (\<lambda>(x, y, z). (real_of_int x * TILE_SIZE, real_of_int y * TILE_SIZE))
                        (tileCover_tiles env ls ZOOM_LEVEL ZOOM_LEVEL))"
    unfolding promiseAll_Resolved(1) [OF req(1) all] req(4) by simp
  then show ?thesis by (auto simp: split_def)
qed

text \<open>
  C6. The projection is an imported library; at an integer zoom level it returns rounded,
  integer pixel coordinates, which is the first hypothesis. In a run whose tiles have all
  arrived, for every sample point that matches a tile, the offset handed to the pixel
  lookup is the point's pixel coordinate minus the matched tile's origin, it equals that
  difference floored to an integer, and both components lie in [0, 256].
\<close>

theorem lookup_offset_is_floored_difference:
  "(\<forall>lonLat zoom. fst (sphericalMercator_px env lonLat zoom) \<in> \<int>
                  \<and> snd (sphericalMercator_px env lonLat zoom) \<in> \<int>)
   \<and> setMinKmBetweenPoints ls policy (s0 \<lparr> requiredTilesObjects := [], tilePromises := [] \<rparr>) = Inr s2
   \<and> promiseAll env (getTileArrayFromLineString env ls ZOOM_LEVEL ZOOM_LEVEL token s2) = (Resolved u, s4)
   \<and> point \<in> set (addXYZCoordinatesToPointsGeoJSON env (getLineStringPoints env s2 ls n) ZOOM_LEVEL)
   \<and> smCoordinates point = Some (px, py)
   \<and> matchingTile (requiredTilesObjects s4) (px, py) = Some tile
   \<and> tileData tile = Some grid
   \<longrightarrow>
     relativeToTile (px, py) tile
       = (px - fst (tile_smCoordinates tile), py - snd (tile_smCoordinates tile))
     \<and> relativeToTile (px, py) tile
       = (real_of_int \<lfloor>px - fst (tile_smCoordinates tile)\<rfloor>,
          real_of_int \<lfloor>py - snd (tile_smCoordinates tile)\<rfloor>)
     \<and> addHeightToPoint (requiredTilesObjects s4) point =
         Inr (point \<lparr> elevation := Some (calculateHeightFromPixel
                [grid (real_of_int \<lfloor>px - fst (tile_smCoordinates tile)\<rfloor>)
                      (real_of_int \<lfloor>py - snd (tile_smCoordinates tile)\<rfloor>) 0,
                 grid (real_of_int \<lfloor>px - fst (tile_smCoordinates tile)\<rfloor>)
                      (real_of_int \<lfloor>py - snd (tile_smCoordinates tile)\<rfloor>) 1,
                 grid (real_of_int \<lfloor>px - fst (tile_smCoordinates tile)\<rfloor>)
                      (real_of_int \<lfloor>py - snd (tile_smCoordinates tile)\<rfloor>) 2]) \<rparr>)
     \<and> 0 \<le> \<lfloor>px - fst (tile_smCoordinates tile)\<rfloor> \<and> \<lfloor>px - fst (tile_smCoordinates tile)\<rfloor> \<le> 256
     \<and> 0 \<le> \<lfloor>py - snd (tile_smCoordinates tile)\<rfloor> \<and> \<lfloor>py - snd (tile_smCoordinates tile)\<rfloor> \<le> 256"
proof (rule impI)
  assume a: "(\<forall>lonLat zoom. fst (sphericalMercator_px env lonLat zoom) \<in> \<int>
                  \<and> snd (sphericalMercator_px env lonLat zoom) \<in> \<int>)
   \<and> setMinKmBetweenPoints ls policy (s0 \<lparr> requiredTilesObjects := [], tilePromises := [] \<rparr>) = Inr s2
   \<and> promiseAll env (getTileArrayFromLineString env ls ZOOM_LEVEL ZOOM_LEVEL token s2) = (Resolved u, s4)
   \<and> point \<in> set (addXYZCoordinatesToPointsGeoJSON env (getLineStringPoints env s2 ls n) ZOOM_LEVEL)
   \<and> smCoordinates point = Some (px, py)
   \<and> matchingTile (requiredTilesObjects s4) (px, py) = Some tile
   \<and> tileData tile = Some grid"
  then have ints: "\<forall>lonLat zoom. fst (sphericalMercator_px env lonLat zoom) \<in> \<int>
                  \<and> snd (sphericalMercator_px env lonLat zoom) \<in> \<int>"
    and s2: "setMinKmBetweenPoints ls policy (s0 \<lparr> requiredTilesObjects := [], tilePromises := [] \<rparr>) = Inr s2"
    and all: "promiseAll env (getTileArrayFromLineString env ls ZOOM_LEVEL ZOOM_LEVEL token s2) = (Resolved u, s4)"
    and point: "point \<in> set (addXYZCoordinatesToPointsGeoJSON env (getLineStringPoints env s2 ls n) ZOOM_LEVEL)"
    and sm: "smCoordinates point = Some (px, py)"
    and m: "matchingTile (requiredTilesObjects s4) (px, py) = Some tile"
    and data: "tileData tile = Some grid"
    by blast+
  from projected_point [OF point] sm ints have px: "px \<in> \<int>" and py: "py \<in> \<int>"
    by (metis fst_conv option.inject, metis snd_conv option.inject)
  from fetched_tile_origin [OF s2 all matchingTile_within(2) [OF m]]
  obtain x y where origin: "tile_smCoordinates tile = (real_of_int x * TILE_SIZE, real_of_int y * TILE_SIZE)"
    by blast
  from matchingTile_within(1) [OF m]
  have box: "0 \<le> px - real_of_int x * TILE_SIZE" "px - real_of_int x * TILE_SIZE \<le> TILE_SIZE"
            "0 \<le> py - real_of_int y * TILE_SIZE" "py - real_of_int y * TILE_SIZE \<le> TILE_SIZE"
    unfolding origin by (simp_all add: pointIsWithinTile_def)
  note fx = integer_offset [OF px box(1,2)]
  note fy = integer_offset [OF py box(3,4)]
  have plain: "relativeToTile (px, py) tile
       = (px - fst (tile_smCoordinates tile), py - snd (tile_smCoordinates tile))"
    by (simp add: relativeToTile_def)
  have floored: "relativeToTile (px, py) tile
       = (real_of_int \<lfloor>px - fst (tile_smCoordinates tile)\<rfloor>,
          real_of_int \<lfloor>py - snd (tile_smCoordinates tile)\<rfloor>)"
    unfolding plain origin fst_conv snd_conv fx(1) fy(1) ..
  have lookup: "addHeightToPoint (requiredTilesObjects s4) point =
         Inr (point \<lparr> elevation := Some (calculateHeightFromPixel
                [grid (real_of_int \<lfloor>px - fst (tile_smCoordinates tile)\<rfloor>)
                      (real_of_int \<lfloor>py - snd (tile_smCoordinates tile)\<rfloor>) 0,
                 grid (real_of_int \<lfloor>px - fst (tile_smCoordinates tile)\<rfloor>)
                      (real_of_int \<lfloor>py - snd (tile_smCoordinates tile)\<rfloor>) 1,
                 grid (real_of_int \<lfloor>px - fst (tile_smCoordinates tile)\<rfloor>)
                      (real_of_int \<lfloor>py - snd (tile_smCoordinates tile)\<rfloor>) 2]) \<rparr>)"
    by (simp add: addHeightToPoint_def sm m data Let_def floored)
  have bx: "0 \<le> \<lfloor>px - fst (tile_smCoordinates tile)\<rfloor>" "\<lfloor>px - fst (tile_smCoordinates tile)\<rfloor> \<le> 256"
    unfolding origin fst_conv by (rule fx(2), rule fx(3))
  have by': "0 \<le> \<lfloor>py - snd (tile_smCoordinates tile)\<rfloor>" "\<lfloor>py - snd (tile_smCoordinates tile)\<rfloor> \<le> 256"
    unfolding origin snd_conv by (rule fy(2), rule fy(3))
  from plain floored lookup bx by'
  show "relativeToTile (px, py) tile
       = (px - fst (tile_smCoordinates tile), py - snd (tile_smCoordinates tile))
     \<and> relativeToTile (px, py) tile
       = (real_of_int \<lfloor>px - fst (tile_smCoordinates tile)\<rfloor>,
          real_of_int \<lfloor>py - snd (tile_smCoordinates tile)\<rfloor>)
     \<and> addHeightToPoint (requiredTilesObjects s4) point =
         Inr (point \<lparr> elevation := Some (calculateHeightFromPixel
                [grid (real_of_int \<lfloor>px - fst (tile_smCoordinates tile)\<rfloor>)
                      (real_of_int \<lfloor>py - snd (tile_smCoordinates tile)\<rfloor>) 0,
                 grid (real_of_int \<lfloor>px - fst (tile_smCoordinates tile)\<rfloor>)
                      (real_of_int \<lfloor>py - snd (tile_smCoordinates tile)\<rfloor>) 1,
                 grid (real_of_int \<lfloor>px - fst (tile_smCoordinates tile)\<rfloor>)
                      (real_of_int \<lfloor>py - snd (tile_smCoordinates tile)\<rfloor>) 2]) \<rparr>)
     \<and> 0 \<le> \<lfloor>px - fst (tile_smCoordinates tile)\<rfloor> \<and> \<lfloor>px - fst (tile_smCoordinates tile)\<rfloor> \<le> 256
     \<and> 0 \<le> \<lfloor>py - snd (tile_smCoordinates tile)\<rfloor> \<and> \<lfloor>py - snd (tile_smCoordinates tile)\<rfloor> \<le> 256"
    by (simp only: simp_thms)
qed

text \<open>
  The example run: the sample point 250 m along the path is projected to the pixel
  (4194356, 4194304), 52 pixels into the example tile.
\<close>

theorem lookup_offset_is_floored_difference_witness:
  "promiseAll exampleCollaborators
       (getTileArrayFromLineString exampleCollaborators exampleLine ZOOM_LEVEL ZOOM_LEVEL [] initialModuleState)
     = (Resolved (),
        \<lparr> requiredTilesObjects = [exampleTile],
          tilePromises = [\<lparr> request_xyz = (16384, 16384, 15), requiredTilesObjectsIndex = 0,
                            access_token = [] \<rparr>],
          minKmBetweenPoints = None \<rparr>)
   \<and> \<lparr> point_coordinates = (0.00224825, 0), distanceAlongLine = 250,
        smCoordinates = Some (4194356, 4194304), elevation = None \<rparr>
       \<in> set (addXYZCoordinatesToPointsGeoJSON exampleCollaborators
                (getLineStringPoints exampleCollaborators initialModuleState exampleLine 5) ZOOM_LEVEL)
   \<and> matchingTile [exampleTile] (4194356, 4194304) = Some exampleTile
   \<and> relativeToTile (4194356, 4194304) exampleTile = (52, 0)
   \<and> addHeightToPoint [exampleTile]
         \<lparr> point_coordinates = (0.00224825, 0), distanceAlongLine = 250,
           smCoordinates = Some (4194356, 4194304), elevation = None \<rparr>
       = Inr \<lparr> point_coordinates = (0.00224825, 0), distanceAlongLine = 250,
               smCoordinates = Some (4194356, 4194304), elevation = Some (Num 55536) \<rparr>"
proof -
  let ?point = "\<lparr> point_coordinates = (0.00224825, 0), distanceAlongLine = 250,
                   smCoordinates = Some (4194356, 4194304), elevation = None \<rparr>"
  let ?s4 = "\<lparr> requiredTilesObjects = [exampleTile],
              tilePromises = [\<lparr> request_xyz = (16384, 16384, 15), requiredTilesObjectsIndex = 0,
                                access_token = [] \<rparr>],
              minKmBetweenPoints = None \<rparr>"
  have ints: "\<forall>lonLat zoom. fst (sphericalMercator_px exampleCollaborators lonLat zoom) \<in> \<int>
                  \<and> snd (sphericalMercator_px exampleCollaborators lonLat zoom) \<in> \<int>"
    by (simp add: exampleCollaborators_def)
  have s2: "setMinKmBetweenPoints exampleLine Null
              (initialModuleState \<lparr> requiredTilesObjects := [], tilePromises := [] \<rparr>) = Inr initialModuleState"
    by (simp add: setMinKmBetweenPoints_def initialModuleState_def)
  have all: "promiseAll exampleCollaborators
       (getTileArrayFromLineString exampleCollaborators exampleLine ZOOM_LEVEL ZOOM_LEVEL [] initialModuleState)
     = (Resolved (), ?s4)"
    by (simp add: run_eval exampleCollaborators_def initialModuleState_def exampleTile_def)
  have point: "?point \<in> set (addXYZCoordinatesToPointsGeoJSON exampleCollaborators
                (getLineStringPoints exampleCollaborators initialModuleState exampleLine 5) ZOOM_LEVEL)"
    by (simp add: run_eval exampleCollaborators_def initialModuleState_def)
  have sm: "smCoordinates ?point = Some (4194356, 4194304)"
    by simp
  have m: "matchingTile (requiredTilesObjects ?s4) (4194356, 4194304) = Some exampleTile"
    by (simp add: matchingTile_def pointIsWithinTile_def exampleTile_def TILE_SIZE_def)
  have data: "tileData exampleTile = Some uniformGrid"
    by (simp add: exampleTile_def)
  note claim = lookup_offset_is_floored_difference
    [of exampleCollaborators exampleLine Null initialModuleState initialModuleState "[]" "()" ?s4
        ?point 5 4194356 4194304 exampleTile uniformGrid, THEN mp]
  have result: "relativeToTile (4194356, 4194304) exampleTile
       = (real_of_int \<lfloor>4194356 - fst (tile_smCoordinates exampleTile)\<rfloor>,
          real_of_int \<lfloor>4194304 - snd (tile_smCoordinates exampleTile)\<rfloor>)
     \<and> addHeightToPoint (requiredTilesObjects ?s4) ?point =
         Inr (?point \<lparr> elevation := Some (calculateHeightFromPixel
                [uniformGrid (real_of_int \<lfloor>4194356 - fst (tile_smCoordinates exampleTile)\<rfloor>)
                      (real_of_int \<lfloor>4194304 - snd (tile_smCoordinates exampleTile)\<rfloor>) 0,
                 uniformGrid (real_of_int \<lfloor>4194356 - fst (tile_smCoordinates exampleTile)\<rfloor>)
                      (real_of_int \<lfloor>4194304 - snd (tile_smCoordinates exampleTile)\<rfloor>) 1,
                 uniformGrid (real_of_int \<lfloor>4194356 - fst (tile_smCoordinates exampleTile)\<rfloor>)
                      (real_of_int \<lfloor>4194304 - snd (tile_smCoordinates exampleTile)\<rfloor>) 2]) \<rparr>)"
    using claim ints s2 all point sm m data by blast
  have off: "relativeToTile (4194356, 4194304) exampleTile = (52, 0)"
    using result [THEN conjunct1] by (simp add: exampleTile_def)
  have h: "addHeightToPoint [exampleTile] ?point
       = Inr \<lparr> point_coordinates = (0.00224825, 0), distanceAlongLine = 250,
               smCoordinates = Some (4194356, 4194304), elevation = Some (Num 55536) \<rparr>"
    using result [THEN conjunct2] by (simp add: exampleTile_def uniformGrid_def)
  have m': "matchingTile [exampleTile] (4194356, 4194304) = Some exampleTile"
    using m by simp
  from all point m' off h show ?thesis by (simp only: simp_thms)
qed

subsection \<open>Paths without tiles\<close>

lemma settleInOrder_no_promises:
  "tilePromises s = [] \<Longrightarrow> settleInOrder env order s = (None, s)"
  by (induction order) simp_all

lemma promiseAll_no_promises:
  "tilePromises s = [] \<Longrightarrow> promiseAll env s = (Resolved (), s)"
  by (simp add: promiseAll_def settleInOrder_no_promises)

lemma addHeightToPointsGeoJSON_no_tiles:
  "points \<noteq> [] \<Longrightarrow> addHeightToPointsGeoJSON [] points = Inl TypeError"
  by (cases points)
     (simp_all add: addHeightToPoint_def matchingTile_def split: option.splits)

lemma sample_points_nonempty:
  "addXYZCoordinatesToPointsGeoJSON env (getLineStringPoints env s ls n) zoom \<noteq> []"
  by (simp add: addXYZCoordinatesToPointsGeoJSON_def getLineStringPoints_def getPointsToCheck_def
      distances_shape)

lemma run_no_tiles:
  assumes s2: "setMinKmBetweenPoints ls policy (s0 \<lparr> requiredTilesObjects := [], tilePromises := [] \<rparr>) = Inr s2"
    and none: "tileCover_tiles env ls ZOOM_LEVEL ZOOM_LEVEL = []"
  shows "getLineStringElevationPoints env ls n token policy s0 = (Rejected TypeError, s2)"
    and "tilePromises s2 = []"
    and "addHeightToPointsGeoJSON []
           (addXYZCoordinatesToPointsGeoJSON env (getLineStringPoints env s2 ls n) ZOOM_LEVEL) = Inl TypeError"
proof -
  from setMinKmBetweenPoints_Inr [OF s2]
  have tiles: "requiredTilesObjects s2 = []" and proms: "tilePromises s2 = []" by simp_all
  have s3: "getTileArrayFromLineString env ls ZOOM_LEVEL ZOOM_LEVEL token s2 = s2"
    by (simp add: getTileArrayFromLineString_def none)
  show lookup: "addHeightToPointsGeoJSON []
           (addXYZCoordinatesToPointsGeoJSON env (getLineStringPoints env s2 ls n) ZOOM_LEVEL) = Inl TypeError"
    by (rule addHeightToPointsGeoJSON_no_tiles [OF sample_points_nonempty])
  show "tilePromises s2 = []" by (rule proms)
  show "getLineStringElevationPoints env ls n token policy s0 = (Rejected TypeError, s2)"
    unfolding run_after_sync [OF s2] s3 promiseAll_no_promises [OF proms]
    by (simp add: tiles lookup)
qed

text \<open>
  C9 (as the claim states it, refuted). A zero-length path, from (0, 0) to (0, 0), under the
  automatic spacing policy. No check rejects the path: the minimum spacing is set, the
  sample distance 0 is planned, the (empty) list of tiles is awaited. The error the caller
  gets is the TypeError of the tile lookup, the failure of a point that no tile covers; it
  is not a geometry error raised on entry.
\<close>

theorem degenerate_path_counterexample:
  "setMinKmBetweenPoints degenerateLine Undefined
       (initialModuleState \<lparr> requiredTilesObjects := [], tilePromises := [] \<rparr>)
     = Inr (initialModuleState \<lparr> minKmBetweenPoints := Some (4.8 / 1000) \<rparr>)
   \<and> getLineStringDistancesToCheck degenerateCollaborators
        (initialModuleState \<lparr> minKmBetweenPoints := Some (4.8 / 1000) \<rparr>) degenerateLine 5 = [0]
   \<and> tileCover_tiles degenerateCollaborators degenerateLine ZOOM_LEVEL ZOOM_LEVEL = []
   \<and> promiseAll degenerateCollaborators
        (getTileArrayFromLineString degenerateCollaborators degenerateLine ZOOM_LEVEL ZOOM_LEVEL []
           (initialModuleState \<lparr> minKmBetweenPoints := Some (4.8 / 1000) \<rparr>))
       = (Resolved (), initialModuleState \<lparr> minKmBetweenPoints := Some (4.8 / 1000) \<rparr>)
   \<and> addHeightToPointsGeoJSON []
        (addXYZCoordinatesToPointsGeoJSON degenerateCollaborators
           (getLineStringPoints degenerateCollaborators
              (initialModuleState \<lparr> minKmBetweenPoints := Some (4.8 / 1000) \<rparr>) degenerateLine 5)
           ZOOM_LEVEL)
       = Inl TypeError
   \<and> getLineStringElevationPoints degenerateCollaborators degenerateLine 5 [] Undefined initialModuleState
       = (Rejected TypeError, initialModuleState \<lparr> minKmBetweenPoints := Some (4.8 / 1000) \<rparr>)"
proof -
  have c1: "\<lceil>(400750166860 / 8388608000 :: real)\<rceil> = 48"
    by (simp add: ceiling_eq_iff)
  show ?thesis
    by (simp add: run_eval degenerateCollaborators_def exampleCollaborators_def
      degenerateLine_def initialModuleState_def c1)
qed

text \<open>
  C9 (amended). The pipeline has no check of the path and no geometry error. A path with
  coordinates for which the resolver returns no tile, as it does for a zero-length path, is
  rejected with the TypeError of the tile lookup: no tile is requested, no collection is
  produced, nothing is retried. A path without coordinates is rejected at once, with a
  TypeError and before any tile is requested, when the spacing policy is automatic. (Under
  the other policies a path without coordinates is first handed to the imported
  \<open>along\<close>; what that does is not part of the file.)
\<close>

theorem degenerate_path_rejected_by_lookup:
  "(coordinates ls \<noteq> [] \<and> tileCover_tiles env ls ZOOM_LEVEL ZOOM_LEVEL = [] \<longrightarrow>
      fst (getLineStringElevationPoints env ls n token policy s0) = Rejected TypeError
      \<and> tilePromises (snd (getLineStringElevationPoints env ls n token policy s0)) = []
      \<and> (\<exists>s2. setMinKmBetweenPoints ls policy (s0 \<lparr> requiredTilesObjects := [], tilePromises := [] \<rparr>) = Inr s2
            \<and> addHeightToPointsGeoJSON []
                 (addXYZCoordinatesToPointsGeoJSON env (getLineStringPoints env s2 ls n) ZOOM_LEVEL)
                = Inl TypeError))
   \<and> (coordinates ls = [] \<longrightarrow>
        getLineStringElevationPoints env ls n token Undefined s0
          = (Rejected TypeError, s0 \<lparr> requiredTilesObjects := [], tilePromises := [] \<rparr>))"
proof (rule conjI)
  show "coordinates ls \<noteq> [] \<and> tileCover_tiles env ls ZOOM_LEVEL ZOOM_LEVEL = [] \<longrightarrow>
      fst (getLineStringElevationPoints env ls n token policy s0) = Rejected TypeError
      \<and> tilePromises (snd (getLineStringElevationPoints env ls n token policy s0)) = []
      \<and> (\<exists>s2. setMinKmBetweenPoints ls policy (s0 \<lparr> requiredTilesObjects := [], tilePromises := [] \<rparr>) = Inr s2
            \<and> addHeightToPointsGeoJSON []
                 (addXYZCoordinatesToPointsGeoJSON env (getLineStringPoints env s2 ls n) ZOOM_LEVEL)
                = Inl TypeError)"
  proof (rule impI)
    assume a: "coordinates ls \<noteq> [] \<and> tileCover_tiles env ls ZOOM_LEVEL ZOOM_LEVEL = []"
    then have "policy \<noteq> Undefined \<or> coordinates ls \<noteq> []" by simp
    from setMinKmBetweenPoints_total [OF this] obtain s2
      where s2: "setMinKmBetweenPoints ls policy (s0 \<lparr> requiredTilesObjects := [], tilePromises := [] \<rparr>) = Inr s2"
      by blast
    from a have none: "tileCover_tiles env ls ZOOM_LEVEL ZOOM_LEVEL = []" by simp
    note run = run_no_tiles(1) [OF s2 none, of n token]
    note proms = run_no_tiles(2) [OF s2 none]
    note lookup = run_no_tiles(3) [OF s2 none, of n]
    have "fst (getLineStringElevationPoints env ls n token policy s0) = Rejected TypeError"
      and "tilePromises (snd (getLineStringElevationPoints env ls n token policy s0)) = []"
      unfolding run using proms by simp_all
    with s2 lookup
    show "fst (getLineStringElevationPoints env ls n token policy s0) = Rejected TypeError
      \<and> tilePromises (snd (getLineStringElevationPoints env ls n token policy s0)) = []
      \<and> (\<exists>s2. setMinKmBetweenPoints ls policy (s0 \<lparr> requiredTilesObjects := [], tilePromises := [] \<rparr>) = Inr s2
            \<and> addHeightToPointsGeoJSON []
                 (addXYZCoordinatesToPointsGeoJSON env (getLineStringPoints env s2 ls n) ZOOM_LEVEL)
                = Inl TypeError)"
      by blast
  qed
  show "coordinates ls = [] \<longrightarrow>
        getLineStringElevationPoints env ls n token Undefined s0
          = (Rejected TypeError, s0 \<lparr> requiredTilesObjects := [], tilePromises := [] \<rparr>)"
    by (simp add: getLineStringElevationPoints_def setMinKmBetweenPoints_def)
qed

text \<open>
  The zero-length path under the policy without a minimum, and a path without coordinates
  under the automatic policy.
\<close>

theorem degenerate_path_rejected_by_lookup_witness:
  "coordinates degenerateLine = [(0, 0), (0, 0)]
   \<and> tileCover_tiles degenerateCollaborators degenerateLine ZOOM_LEVEL ZOOM_LEVEL = []
   \<and> fst (getLineStringElevationPoints degenerateCollaborators degenerateLine 5 [] Null initialModuleState)
       = Rejected TypeError
   \<and> tilePromises (snd (getLineStringElevationPoints degenerateCollaborators degenerateLine 5 [] Null
                          initialModuleState)) = []
   \<and> coordinates \<lparr> coordinates = [] \<rparr> = []
   \<and> getLineStringElevationPoints exampleCollaborators \<lparr> coordinates = [] \<rparr> 5 [] Undefined initialModuleState
       = (Rejected TypeError, initialModuleState)"
proof -
  have c: "coordinates degenerateLine = [(0, 0), (0, 0)]"
    by (simp add: degenerateLine_def)
  have none: "tileCover_tiles degenerateCollaborators degenerateLine ZOOM_LEVEL ZOOM_LEVEL = []"
    by (simp add: degenerateCollaborators_def)
  from c none
  have hyp: "coordinates degenerateLine \<noteq> []
             \<and> tileCover_tiles degenerateCollaborators degenerateLine ZOOM_LEVEL ZOOM_LEVEL = []"
    by simp
  note first = degenerate_path_rejected_by_lookup
    [of degenerateLine degenerateCollaborators 5 "[]" Null initialModuleState,
     THEN conjunct1, THEN mp, OF hyp]
  have empty: "coordinates \<lparr> coordinates = [] \<rparr> = []"
    by simp
  from degenerate_path_rejected_by_lookup
    [of "\<lparr> coordinates = [] \<rparr>" exampleCollaborators 5 "[]" Null initialModuleState,
     THEN conjunct2, THEN mp, OF empty]
  have second: "getLineStringElevationPoints exampleCollaborators \<lparr> coordinates = [] \<rparr> 5 [] Undefined
                    initialModuleState = (Rejected TypeError, initialModuleState)"
    by (simp add: initialModuleState_def)
  from c none first [THEN conjunct1] first [THEN conjunct2, THEN conjunct1] empty second
  show ?thesis by (simp only: simp_thms)
qed

subsection \<open>Independence of the module state\<close>

lemma setMinKmBetweenPoints_reset:
  "setMinKmBetweenPoints ls policy (s \<lparr> requiredTilesObjects := [], tilePromises := [] \<rparr>)
     = (case setMinKmBetweenPoints ls policy (s' \<lparr> requiredTilesObjects := [], tilePromises := [] \<rparr>) of
          Inl e \<Rightarrow> Inl e
        | Inr s2 \<Rightarrow> Inr s2)"
  by (cases s; cases s')
     (simp add: setMinKmBetweenPoints_def split: minMeters.splits list.splits)

lemma run_result_independent:
  "fst (getLineStringElevationPoints env ls n token policy s)
     = fst (getLineStringElevationPoints env ls n token policy s')"
proof (cases "setMinKmBetweenPoints ls policy (s' \<lparr> requiredTilesObjects := [], tilePromises := [] \<rparr>)")
  case (Inl e)
  then have "setMinKmBetweenPoints ls policy (s \<lparr> requiredTilesObjects := [], tilePromises := [] \<rparr>) = Inl e"
    by (subst setMinKmBetweenPoints_reset [of ls policy s s']) simp
  from run_sync_error [OF this] run_sync_error [OF Inl] show ?thesis by simp
next
  case (Inr s2)
  then have "setMinKmBetweenPoints ls policy (s \<lparr> requiredTilesObjects := [], tilePromises := [] \<rparr>) = Inr s2"
    by (subst setMinKmBetweenPoints_reset [of ls policy s s']) simp
  from run_after_sync [OF this] run_after_sync [OF Inr] show ?thesis by simp
qed

lemma run_state_independent:
  assumes "policy \<noteq> Undefined \<or> coordinates ls \<noteq> []"
  shows "snd (getLineStringElevationPoints env ls n token policy s)
     = snd (getLineStringElevationPoints env ls n token policy s')"
proof -
  from setMinKmBetweenPoints_total [OF assms] obtain s2
    where s2: "setMinKmBetweenPoints ls policy (s' \<lparr> requiredTilesObjects := [], tilePromises := [] \<rparr>) = Inr s2"
    by blast
  then have "setMinKmBetweenPoints ls policy (s \<lparr> requiredTilesObjects := [], tilePromises := [] \<rparr>) = Inr s2"
    by (subst setMinKmBetweenPoints_reset [of ls policy s s']) simp
  from run_after_sync [OF this] run_after_sync [OF s2] show ?thesis by simp
qed

text \<open>
  C10. A run first empties \<open>requiredTilesObjects\<close> and \<open>tilePromises\<close> and sets
  \<open>minKmBetweenPoints\<close> anew, so its result is the same from every module state; in
  particular a second run, started in the state the first one left behind and given the
  same inputs and the same answers of the collaborators, has the same result. Whenever the
  minimum spacing can be computed, the state a run leaves behind is the same too.
\<close>

theorem run_independent_of_prior_state:
  "fst (getLineStringElevationPoints env ls n token policy s)
     = fst (getLineStringElevationPoints env ls n token policy s')
   \<and> fst (getLineStringElevationPoints env ls n token policy
            (snd (getLineStringElevationPoints env ls n token policy s)))
     = fst (getLineStringElevationPoints env ls n token policy s)
   \<and> (policy \<noteq> Undefined \<or> coordinates ls \<noteq> [] \<longrightarrow>
        snd (getLineStringElevationPoints env ls n token policy s)
          = snd (getLineStringElevationPoints env ls n token policy s'))"
proof (intro conjI)
  show "fst (getLineStringElevationPoints env ls n token policy s)
     = fst (getLineStringElevationPoints env ls n token policy s')"
    by (rule run_result_independent)
  show "fst (getLineStringElevationPoints env ls n token policy
            (snd (getLineStringElevationPoints env ls n token policy s)))
     = fst (getLineStringElevationPoints env ls n token policy s)"
    by (rule run_result_independent)
  show "policy \<noteq> Undefined \<or> coordinates ls \<noteq> [] \<longrightarrow>
        snd (getLineStringElevationPoints env ls n token policy s)
          = snd (getLineStringElevationPoints env ls n token policy s')"
    using run_state_independent [of policy ls env n token s s'] by blast
qed

text \<open>
  The example run, started once in the initial module state and once in a state holding
  two stale tiles, a stale promise and a stale minimum spacing.
\<close>

theorem run_independent_of_prior_state_witness:
  "fst (getLineStringElevationPoints exampleCollaborators exampleLine 5 [] Null usedModuleState)
     = Resolved \<lparr> features =
         [\<lparr> point_coordinates = (0, 0), distanceAlongLine = 0,
            smCoordinates = None, elevation = Some (Num 55536) \<rparr>,
          \<lparr> point_coordinates = (0.00224825, 0), distanceAlongLine = 250,
            smCoordinates = None, elevation = Some (Num 55536) \<rparr>,
          \<lparr> point_coordinates = (0.0044965, 0), distanceAlongLine = 500,
            smCoordinates = None, elevation = Some (Num 55536) \<rparr>,
          \<lparr> point_coordinates = (0.00674475, 0), distanceAlongLine = 750,
            smCoordinates = None, elevation = Some (Num 55536) \<rparr>,
          \<lparr> point_coordinates = (0.008993, 0), distanceAlongLine = 1000,
            smCoordinates = None, elevation = Some (Num 55536) \<rparr>] \<rparr>
   \<and> Null \<noteq> Undefined
   \<and> snd (getLineStringElevationPoints exampleCollaborators exampleLine 5 [] Null usedModuleState)
     = snd (getLineStringElevationPoints exampleCollaborators exampleLine 5 [] Null initialModuleState)"
proof -
  note claim = run_independent_of_prior_state
    [of exampleCollaborators exampleLine 5 "[]" Null usedModuleState initialModuleState]
  have "fst (getLineStringElevationPoints exampleCollaborators exampleLine 5 [] Null usedModuleState)
          = fst (getLineStringElevationPoints exampleCollaborators exampleLine 5 [] Null initialModuleState)"
    by (rule claim [THEN conjunct1])
  also have "\<dots> = Resolved \<lparr> features =
         [\<lparr> point_coordinates = (0, 0), distanceAlongLine = 0,
            smCoordinates = None, elevation = Some (Num 55536) \<rparr>,
          \<lparr> point_coordinates = (0.00224825, 0), distanceAlongLine = 250,
            smCoordinates = None, elevation = Some (Num 55536) \<rparr>,
          \<lparr> point_coordinates = (0.0044965, 0), distanceAlongLine = 500,
            smCoordinates = None, elevation = Some (Num 55536) \<rparr>,
          \<lparr> point_coordinates = (0.00674475, 0), distanceAlongLine = 750,
            smCoordinates = None, elevation = Some (Num 55536) \<rparr>,
          \<lparr> point_coordinates = (0.008993, 0), distanceAlongLine = 1000,
            smCoordinates = None, elevation = Some (Num 55536) \<rparr>] \<rparr>"
    by (simp add: run_eval exampleCollaborators_def exampleLine_def initialModuleState_def uniformGrid_def)
  finally have result: "fst (getLineStringElevationPoints exampleCollaborators exampleLine 5 [] Null usedModuleState)
     = Resolved \<lparr> features =
         [\<lparr> point_coordinates = (0, 0), distanceAlongLine = 0,
            smCoordinates = None, elevation = Some (Num 55536) \<rparr>,
          \<lparr> point_coordinates = (0.00224825, 0), distanceAlongLine = 250,
            smCoordinates = None, elevation = Some (Num 55536) \<rparr>,
          \<lparr> point_coordinates = (0.0044965, 0), distanceAlongLine = 500,
            smCoordinates = None, elevation = Some (Num 55536) \<rparr>,
          \<lparr> point_coordinates = (0.00674475, 0), distanceAlongLine = 750,
            smCoordinates = None, elevation = Some (Num 55536) \<rparr>,
          \<lparr> point_coordinates = (0.008993, 0), distanceAlongLine = 1000,
            smCoordinates = None, elevation = Some (Num 55536) \<rparr>] \<rparr>" .
  have policy: "Null \<noteq> Undefined" by simp
  then have "Null \<noteq> Undefined \<or> coordinates exampleLine \<noteq> []" by simp
  from claim [THEN conjunct2, THEN conjunct2, THEN mp, OF this] result policy
  show ?thesis by (simp only: simp_thms)
qed

end
